theory Spec2Isabelle
  imports Main "HOL-Library.Sublist" "HOL-Library.Multiset"
begin

section \<open>Go values shared by the embedded packages\<close>

text \<open>
  A Go call either returns or panics (a nil dereference, an index out of range).
  The panic is a value of the model, so that no branch of the source is lost.
\<close>

datatype 'a go = Return 'a | Panic

section \<open>Package git: the rate-limit helpers of \<^verbatim>\<open>pkg/git/http.go\<close>\<close>

subsection \<open>The functions of Go's \<^verbatim>\<open>strings\<close> and \<^verbatim>\<open>strconv\<close> that the helpers call\<close>

text \<open>
  Go strings are byte sequences; \<^typ>\<open>string\<close> is a list of 8-bit characters.
  \<^verbatim>\<open>strings.Index(s, substr)\<close> is the position of the first occurrence of
  \<^verbatim>\<open>substr\<close> in \<^verbatim>\<open>s\<close> (\<open>None\<close> for Go's \<open>-1\<close>), and
  \<^verbatim>\<open>strings.Contains(s, substr)\<close> is \<^verbatim>\<open>Index(s, substr) >= 0\<close>.
\<close>

fun Index :: "string \<Rightarrow> string \<Rightarrow> nat option" where
  "Index [] substr = (if substr = [] then Some 0 else None)"
| "Index (c # cs) substr =
     (if prefix substr (c # cs) then Some 0 else map_option Suc (Index cs substr))"

definition Contains :: "string \<Rightarrow> string \<Rightarrow> bool" where
  "Contains s substr = (Index s substr \<noteq> None)"

lemma Index_Some_nonempty:
  "Index s sep = Some m \<Longrightarrow> sep \<noteq> [] \<Longrightarrow> s \<noteq> []"
  by (cases s) auto

text \<open>
  \<^verbatim>\<open>strings.Split(s, sep)\<close> cuts \<^verbatim>\<open>s\<close> at every occurrence of \<^verbatim>\<open>sep\<close>,
  found from the left and not overlapping; the result always has at least one element.
  Both call sites pass a non-empty separator; for the empty one Go cuts after every
  UTF-8 sequence, which is written here bytewise.
\<close>

function Split :: "string \<Rightarrow> string \<Rightarrow> string list" where
  "Split s sep =
     (if sep = [] then map (\<lambda>c. [c]) s
      else case Index s sep of
             None \<Rightarrow> [s]
           | Some m \<Rightarrow> take m s # Split (drop (m + length sep) s) sep)"
  by pat_completeness auto
termination
proof (relation "measure (\<lambda>(s, sep). length s)")
  show "wf (measure (\<lambda>(s, sep). length s))" by simp
next
  fix s sep :: string and m :: nat
  assume "sep \<noteq> []" and "Index s sep = Some m"
  then have "s \<noteq> []" by (rule Index_Some_nonempty [rotated])
  with \<open>sep \<noteq> []\<close> show "((drop (m + length sep) s, sep), (s, sep)) \<in> measure (\<lambda>(s, sep). length s)"
    by (cases sep) auto
qed

declare Split.simps [simp del]

text \<open>
  \<^verbatim>\<open>strconv.Atoi(s)\<close>: an optional sign, then one or more decimal digits; the value
  must fit Go's \<^verbatim>\<open>int\<close>, taken as 64 bits wide. \<open>None\<close> is a non-nil conversion error.
\<close>

definition digitVal :: "char \<Rightarrow> nat option" where
  "digitVal c =
     (let n = (of_char c :: nat) in if 48 \<le> n \<and> n \<le> 57 then Some (n - 48) else None)"

fun parseDigits :: "nat \<Rightarrow> string \<Rightarrow> nat option" where
  "parseDigits acc [] = Some acc"
| "parseDigits acc (c # cs) =
     (case digitVal c of None \<Rightarrow> None | Some d \<Rightarrow> parseDigits (acc * 10 + d) cs)"

definition Atoi :: "string \<Rightarrow> int option" where
  "Atoi s =
     (let (neg, ds) =
            (case s of
               [] \<Rightarrow> (False, s)
             | c # cs \<Rightarrow>
                 if c = CHR ''-'' then (True, cs)
                 else if c = CHR ''+'' then (False, cs)
                 else (False, s))
      in if ds = [] then None
         else case parseDigits 0 ds of
                None \<Rightarrow> None
              | Some n \<Rightarrow>
                  (let v = (if neg then - int n else int n)
                   in if - (2 ^ 63) \<le> v \<and> v < 2 ^ 63 then Some v else None))"

text \<open>\<^verbatim>\<open>strconv.FormatInt(i, 10)\<close>, with which the fake client writes the reset time.\<close>

definition digitChar :: "nat \<Rightarrow> char" where
  "digitChar d = ''0123456789'' ! d"

function FormatUint :: "nat \<Rightarrow> string" where
  "FormatUint n =
     (if n < 10 then [digitChar n]
      else FormatUint (n div 10) @ [digitChar (n mod 10)])"
  by pat_completeness auto
termination
  by (relation "measure (\<lambda>n. n)") auto

declare FormatUint.simps [simp del]

definition FormatInt :: "int \<Rightarrow> string" where
  "FormatInt i = (if i < 0 then CHR ''-'' # FormatUint (nat (- i)) else FormatUint (nat i))"

subsection \<open>CheckRateLimitGetResetTime and GetGapTime\<close>

text \<open>
  The function reads its argument only through \<^verbatim>\<open>err.Error()\<close>, so an error value is
  given by its message and \<open>None\<close> is the nil error. The index \<^verbatim>\<open>[1]\<close> into the
  result of the outer \<^verbatim>\<open>Split\<close> panics when that result has one element; the index
  \<^verbatim>\<open>[0]\<close> into the inner one is always in range.
\<close>

definition CheckRateLimitGetResetTime :: "string option \<Rightarrow> int go" where
  "CheckRateLimitGetResetTime err =
     (case err of
        None \<Rightarrow> Return 0
      | Some strErr \<Rightarrow>
          if Contains strErr ''Rate limit exceeded'' then
            (case Split strErr ''::'' of
               _ # snd_part # _ \<Rightarrow>
                 (case Split snd_part ''.'' of
                    unixTime # _ \<Rightarrow>
                      (case Atoi unixTime of Some tm \<Rightarrow> Return tm | None \<Rightarrow> Return 0)
                  | [] \<Rightarrow> Panic)
             | _ \<Rightarrow> Panic)
          else Return 0)"

text \<open>
  \<^verbatim>\<open>GetGapTime\<close> subtracts in \<^verbatim>\<open>int64\<close>; \<open>now\<close> is the value of
  \<^verbatim>\<open>time.Now().Unix()\<close> at the call. The wrap-around of the subtraction is written out.
\<close>

definition wrap64 :: "int \<Rightarrow> int" where
  "wrap64 x = (x + 2 ^ 63) mod 2 ^ 64 - 2 ^ 63"

definition GetGapTime :: "int \<Rightarrow> int \<Rightarrow> int" where
  "GetGapTime target now = wrap64 (target - now)"

text \<open>
  The rate-limit error of the fake client (\<^verbatim>\<open>ListWebhook\<close>, \<^verbatim>\<open>RegisterWebhook\<close>):
  the reset time is one hundred seconds after \<open>now\<close>.
\<close>

definition rateLimitErrorf :: "string \<Rightarrow> string" where
  "rateLimitErrorf resetTime =
     ''unixtime::'' @ resetTime
       @ ''. Rate limit exceeded, code 403. Please increase the limit or wait until reset''"

definition fakeRateLimitError :: "int \<Rightarrow> string" where
  "fakeRateLimitError now = rateLimitErrorf (FormatInt (wrap64 (now + 100)))"


section \<open>Package git: the data of the provider clients\<close>

text \<open>
  The declarations of the types of \<^verbatim>\<open>pkg/git\<close> are not among the sources at hand; of
  each struct the fields that the embedded code reads or writes are kept, under the names
  of the source (the specification's data model lists the same attributes). Where
  two structs share a field name the field is written with its struct, as in
  \<open>User.Name\<close>. The string-typed enumerations keep the constants the code names and carry
  every other text (the empty one for an unset field) in a last constructor, whose text
  is understood to differ from those of the named constants. A \<^verbatim>\<open>metav1.Time\<close> is an
  instant, a nil pointer is \<open>None\<close>.
\<close>

datatype EventType =
  EventTypePullRequest | EventTypePullRequestReview | EventTypeOther string

datatype PullRequestState = PullRequestStateOpen | PullRequestStateOther string

datatype PullRequestAction =
  PullRequestActionLabeled | PullRequestActionUnlabeled | PullRequestActionOther string

datatype PullRequestReviewState =
  PullRequestReviewStateApproved | PullRequestReviewStateUnapproved
  | PullRequestReviewStateOther string

datatype IssueType = IssueTypeIssue | IssueTypePullRequest

record User =
  ID :: int
  Name :: string

record IssueLabel =
  Name :: string

record PullRequest =
  ID :: int
  State :: PullRequestState
  Action :: PullRequestAction
  Author :: User
  URL :: string
  Labels :: "IssueLabel list"
  LabelChanged :: "IssueLabel list"

record Comment =
  Body :: string
  CreatedAt :: "int option"

record Issue =
  PullRequest :: "PullRequest option"

record IssueComment =
  Comment :: Comment
  Issue :: Issue
  Author :: User
  ReviewState :: PullRequestReviewState

record Webhook =
  EventType :: EventType
  Sender :: User
  PullRequest :: "PullRequest option"
  IssueComment :: "IssueComment option"

text \<open>
  An error value is either the typed \<^verbatim>\<open>*git.UnauthorizedError\<close>, with its user and
  repository, or any other error, given by its message.
\<close>

datatype error = Errorf string | UnauthorizedError string string

text \<open>\<^verbatim>\<open>chatops.Command\<close> and the two fields of the configuration's git section.\<close>

record Command =
  Type :: string
  Args :: "string list"

record IntegrationConfig =
  Repository :: string
  Token :: "string option"

subsection \<open>Calls that change a remote state\<close>

text \<open>
  A call on a client runs in the state of the remote side and either returns or panics;
  the state it leaves is kept in both cases.
\<close>

type_synonym ('a, 's) act = "'s \<Rightarrow> 'a go \<times> 's"

definition ret :: "'a \<Rightarrow> ('a, 's) act" where
  "ret a s = (Return a, s)"

definition panic :: "('a, 's) act" where
  "panic s = (Panic, s)"

definition andThen :: "('a, 's) act \<Rightarrow> ('a \<Rightarrow> ('b, 's) act) \<Rightarrow> ('b, 's) act" where
  "andThen m f s = (case m s of (Return a, s') \<Rightarrow> f a s' | (Panic, s') \<Rightarrow> (Panic, s'))"

text \<open>
  A slice that a call returns may share its array with data the client keeps: Go hands
  out the slice header, not a copy. Such a slice is given by its elements and by what
  writing other elements into its array does to the state (nothing, for a client that
  builds the slice anew). Only the comments are written to by the plugin, which sorts
  them in place.
\<close>

type_synonym ('a, 's) slice = "'a list \<times> ('a list \<Rightarrow> 's \<Rightarrow> 's)"

definition modify :: "('s \<Rightarrow> 's) \<Rightarrow> (unit, 's) act" where
  "modify f s = (Return (), f s)"

text \<open>
  The part of the interface \<^verbatim>\<open>git.Client\<close> that the approve plugin calls. A Go result
  \<^verbatim>\<open>(value, error)\<close> is a sum, a result \<^verbatim>\<open>error\<close> an option.
\<close>

record 's Client =
  CanUserWriteToRepo :: "User \<Rightarrow> (error + bool, 's) act"
  RegisterComment :: "IssueType \<Rightarrow> int \<Rightarrow> string \<Rightarrow> (error option, 's) act"
  ListComments :: "int \<Rightarrow> (error + (IssueComment, 's) slice, 's) act"
  ListLabels :: "int \<Rightarrow> (error + IssueLabel list, 's) act"
  SetLabel :: "IssueType \<Rightarrow> int \<Rightarrow> string \<Rightarrow> (error option, 's) act"
  DeleteLabel :: "IssueType \<Rightarrow> int \<Rightarrow> string \<Rightarrow> (error option, 's) act"

text \<open>
  To read off which calls a handler makes, and in which order, a client is wrapped so
  that every call is also written to a journal kept beside the state.
\<close>

datatype gitCall =
    GitCanUserWriteToRepo User
  | GitRegisterComment IssueType int string
  | GitListComments int
  | GitListLabels int
  | GitSetLabel IssueType int string
  | GitDeleteLabel IssueType int string

definition journal :: "gitCall \<Rightarrow> ('a, 's) act \<Rightarrow> ('a, 's \<times> gitCall list) act" where
  "journal c m = (\<lambda>(s, calls). case m s of (res, s') \<Rightarrow> (res, (s', calls @ [c])))"

definition tracedSlice :: "('a, 's) slice \<Rightarrow> ('a, 's \<times> gitCall list) slice" where
  "tracedSlice sl = (fst sl, (\<lambda>xs (s, calls). (snd sl xs s, calls)))"

definition traced :: "'s Client \<Rightarrow> ('s \<times> gitCall list) Client" where
  "traced cli =
     \<lparr>CanUserWriteToRepo = (\<lambda>user. journal (GitCanUserWriteToRepo user) (CanUserWriteToRepo cli user)),
      RegisterComment = (\<lambda>t issueNo body.
        journal (GitRegisterComment t issueNo body) (RegisterComment cli t issueNo body)),
      ListComments = (\<lambda>issueNo.
        journal (GitListComments issueNo)
          (\<lambda>s. case ListComments cli issueNo s of
                  (res, s') \<Rightarrow> (map_go (map_sum (\<lambda>err. err) tracedSlice) res, s'))),
      ListLabels = (\<lambda>pid. journal (GitListLabels pid) (ListLabels cli pid)),
      SetLabel = (\<lambda>t pid label. journal (GitSetLabel t pid label) (SetLabel cli t pid label)),
      DeleteLabel = (\<lambda>t pid label. journal (GitDeleteLabel t pid label) (DeleteLabel cli t pid label))\<rparr>"

section \<open>Package fake: the in-memory client\<close>

text \<open>
  The store of the fake client is a package variable, a map from repository names to
  repositories; a nil map is \<open>None\<close>. Of a repository the maps below are the ones the
  label, comment and permission calls use. The maps hold pointers; they are taken to be
  non-nil and not shared between keys, so that a write through one is a write to its
  entry.
\<close>

record Repo =
  UserCanWrite :: "(string \<rightharpoonup> bool) option"
  PullRequests :: "(int \<rightharpoonup> PullRequest) option"
  Comments :: "(int \<rightharpoonup> IssueComment list) option"

type_synonym Repos = "(string \<rightharpoonup> Repo) option"

text \<open>The two checks with which every call of the fake client starts.\<close>

definition lookupRepo :: "Repos \<Rightarrow> string \<Rightarrow> error + Repo" where
  "lookupRepo repos repoName =
     (case repos of
        None \<Rightarrow> Inl (Errorf ''repos not initialized'')
      | Some m \<Rightarrow>
          (case m repoName of
             None \<Rightarrow> Inl (Errorf ''404 no such repository'')
           | Some repo \<Rightarrow> Inr repo))"

definition storeRepo :: "Repos \<Rightarrow> string \<Rightarrow> Repo \<Rightarrow> Repos" where
  "storeRepo repos repoName repo = map_option (\<lambda>m. m(repoName \<mapsto> repo)) repos"

definition fake_CanUserWriteToRepo ::
  "IntegrationConfig \<Rightarrow> User \<Rightarrow> (error + bool, Repos) act" where
  "fake_CanUserWriteToRepo cfg user repos =
     (case lookupRepo repos (Repository cfg) of
        Inl err \<Rightarrow> (Return (Inl err), repos)
      | Inr repo \<Rightarrow>
          (case UserCanWrite repo of
             None \<Rightarrow> (Return (Inl (Errorf ''userCanWrite not initialized'')), repos)
           | Some canWrite \<Rightarrow>
               (case canWrite (User.Name user) of
                  None \<Rightarrow> (Return (Inl (Errorf ''404 no such user'')), repos)
                | Some privilege \<Rightarrow> (Return (Inr privilege), repos))))"

text \<open>
  The comment that \<^verbatim>\<open>RegisterComment\<close> appends: the body, the time of the call and a
  pull request with the issue number; every other field has Go's zero value.
\<close>

definition zeroUser :: User where
  "zeroUser = \<lparr>User.ID = 0, User.Name = []\<rparr>"

definition registeredComment :: "int \<Rightarrow> int \<Rightarrow> string \<Rightarrow> IssueComment" where
  "registeredComment now issueNo body =
     \<lparr>Comment = \<lparr>Body = body, CreatedAt = Some now\<rparr>,
      Issue = \<lparr>Issue.PullRequest = Some
        \<lparr>PullRequest.ID = issueNo, State = PullRequestStateOther [],
         Action = PullRequestActionOther [], PullRequest.Author = zeroUser, URL = [],
         Labels = [], LabelChanged = []\<rparr>\<rparr>,
      IssueComment.Author = zeroUser,
      ReviewState = PullRequestReviewStateOther []\<rparr>"

definition fake_RegisterComment ::
  "int \<Rightarrow> IntegrationConfig \<Rightarrow> IssueType \<Rightarrow> int \<Rightarrow> string \<Rightarrow> (error option, Repos) act" where
  "fake_RegisterComment now cfg t issueNo body repos =
     (case lookupRepo repos (Repository cfg) of
        Inl err \<Rightarrow> (Return (Some err), repos)
      | Inr repo \<Rightarrow>
          (case Comments repo of
             None \<Rightarrow> (Return (Some (Errorf ''comments not initialized'')), repos)
           | Some comments \<Rightarrow>
               (let old = (case comments issueNo of None \<Rightarrow> [] | Some cs \<Rightarrow> cs);
                    repo1 = repo\<lparr>Comments :=
                      Some (comments(issueNo \<mapsto> old @ [registeredComment now issueNo body]))\<rparr>
                in (Return None, storeRepo repos (Repository cfg) repo1))))"

text \<open>
  \<^verbatim>\<open>ListComments\<close> returns \<^verbatim>\<open>repo.Comments[issueNo]\<close> itself: the slice shares its
  array with the store, and writing elements into it rewrites the comments stored under
  the issue number. A missing entry (or a nil map) gives the nil slice, which has
  nothing to write to.
\<close>

definition fake_writeComments :: "IntegrationConfig \<Rightarrow> int \<Rightarrow> IssueComment list \<Rightarrow> Repos \<Rightarrow> Repos" where
  "fake_writeComments cfg issueNo cs repos =
     (case lookupRepo repos (Repository cfg) of
        Inl err \<Rightarrow> repos
      | Inr repo \<Rightarrow>
          (case Comments repo of
             None \<Rightarrow> repos
           | Some comments \<Rightarrow>
               (case comments issueNo of
                  None \<Rightarrow> repos
                | Some old \<Rightarrow>
                    storeRepo repos (Repository cfg)
                      (repo\<lparr>Comments := Some (comments(issueNo \<mapsto> cs))\<rparr>))))"

definition fake_ListComments ::
  "IntegrationConfig \<Rightarrow> int \<Rightarrow> (error + (IssueComment, Repos) slice, Repos) act" where
  "fake_ListComments cfg issueNo repos =
     (case lookupRepo repos (Repository cfg) of
        Inl err \<Rightarrow> (Return (Inl err), repos)
      | Inr repo \<Rightarrow>
          (case Comments repo of
             None \<Rightarrow> (Return (Inr ([], fake_writeComments cfg issueNo)), repos)
           | Some comments \<Rightarrow>
               (Return (Inr (case comments issueNo of None \<Rightarrow> [] | Some cs \<Rightarrow> cs,
                             fake_writeComments cfg issueNo)), repos)))"

text \<open>
  \<^verbatim>\<open>ListLabels\<close> reads \<^verbatim>\<open>repo.PullRequests[id].Labels\<close> without a check: for an
  unknown id the map gives a nil pointer and the call panics.
\<close>

definition fake_ListLabels ::
  "IntegrationConfig \<Rightarrow> int \<Rightarrow> (error + IssueLabel list, Repos) act" where
  "fake_ListLabels cfg pid repos =
     (case lookupRepo repos (Repository cfg) of
        Inl err \<Rightarrow> (Return (Inl err), repos)
      | Inr repo \<Rightarrow>
          (case PullRequests repo of
             None \<Rightarrow> (Panic, repos)
           | Some prs \<Rightarrow>
               (case prs pid of
                  None \<Rightarrow> (Panic, repos)
                | Some pr \<Rightarrow> (Return (Inr (Labels pr)), repos))))"

definition fake_SetLabel ::
  "IntegrationConfig \<Rightarrow> IssueType \<Rightarrow> int \<Rightarrow> string \<Rightarrow> (error option, Repos) act" where
  "fake_SetLabel cfg t pid label repos =
     (case lookupRepo repos (Repository cfg) of
        Inl err \<Rightarrow> (Return (Some err), repos)
      | Inr repo \<Rightarrow>
          (case PullRequests repo of
             None \<Rightarrow> (Return (Some (Errorf ''pull requests not initialized'')), repos)
           | Some prs \<Rightarrow>
               (case prs pid of
                  None \<Rightarrow> (Return (Some (Errorf ''404 no such PR'')), repos)
                | Some pr \<Rightarrow>
                    (let pr1 = pr\<lparr>Labels := Labels pr @ [\<lparr>IssueLabel.Name = label\<rparr>]\<rparr>;
                         repo1 = repo\<lparr>PullRequests := Some (prs(pid \<mapsto> pr1))\<rparr>
                     in (Return None, storeRepo repos (Repository cfg) repo1)))))"

text \<open>
  The loop of \<^verbatim>\<open>DeleteLabel\<close>: the index of the first label with the name, \<open>None\<close>
  for \<^verbatim>\<open>idx = -1\<close>; then the cut of the slice at that index.
\<close>

fun labelIndex :: "string \<Rightarrow> IssueLabel list \<Rightarrow> nat option" where
  "labelIndex label [] = None"
| "labelIndex label (l # ls) =
     (if IssueLabel.Name l = label then Some 0 else map_option Suc (labelIndex label ls))"

definition cutLabel :: "string \<Rightarrow> IssueLabel list \<Rightarrow> IssueLabel list" where
  "cutLabel label labels =
     (case labelIndex label labels of
        None \<Rightarrow> labels
      | Some idx \<Rightarrow>
          if idx = length labels - 1 then take idx labels
          else take idx labels @ drop (idx + 1) labels)"

definition fake_DeleteLabel :: "string \<Rightarrow> int \<Rightarrow> string \<Rightarrow> (error option, Repos) act" where
  "fake_DeleteLabel repoName pid label repos =
     (case lookupRepo repos repoName of
        Inl err \<Rightarrow> (Return (Some err), repos)
      | Inr repo \<Rightarrow>
          (case PullRequests repo of
             None \<Rightarrow> (Return (Some (Errorf ''pull requests not initialized'')), repos)
           | Some prs \<Rightarrow>
               (case prs pid of
                  None \<Rightarrow> (Return (Some (Errorf ''404 no such PR'')), repos)
                | Some pr \<Rightarrow>
                    (let pr1 = pr\<lparr>Labels := cutLabel label (Labels pr)\<rparr>;
                         repo1 = repo\<lparr>PullRequests := Some (prs(pid \<mapsto> pr1))\<rparr>
                     in (Return None, storeRepo repos repoName repo1)))))"

definition fake_Client_DeleteLabel ::
  "IntegrationConfig \<Rightarrow> IssueType \<Rightarrow> int \<Rightarrow> string \<Rightarrow> (error option, Repos) act" where
  "fake_Client_DeleteLabel cfg t pid label = fake_DeleteLabel (Repository cfg) pid label"

text \<open>
  The fake client bound to a configuration; \<open>now\<close> is the clock that
  \<^verbatim>\<open>metav1.Now()\<close> reads in \<^verbatim>\<open>RegisterComment\<close>.
\<close>

definition fakeClient :: "int \<Rightarrow> IntegrationConfig \<Rightarrow> Repos Client" where
  "fakeClient now cfg =
     \<lparr>CanUserWriteToRepo = fake_CanUserWriteToRepo cfg,
      RegisterComment = fake_RegisterComment now cfg,
      ListComments = fake_ListComments cfg,
      ListLabels = fake_ListLabels cfg,
      SetLabel = fake_SetLabel cfg,
      DeleteLabel = fake_Client_DeleteLabel cfg\<rparr>"

text \<open>The labels of a pull request in the store, when it is there.\<close>

definition labelsOf :: "Repos \<Rightarrow> string \<Rightarrow> int \<Rightarrow> IssueLabel list option" where
  "labelsOf repos repoName pid =
     (case lookupRepo repos repoName of
        Inl err \<Rightarrow> None
      | Inr repo \<Rightarrow>
          (case PullRequests repo of
             None \<Rightarrow> None
           | Some prs \<Rightarrow> map_option Labels (prs pid)))"

section \<open>Package approve: the approval plugin\<close>

text \<open>
  The receiver \<open>h\<close> of the handler's methods stands for what they reach beyond the
  sources at hand: \<^verbatim>\<open>utils.GetGitCli\<close>, which builds the client of a configuration or
  fails; \<^verbatim>\<open>chatops.ExtractCommands\<close>; the \<^verbatim>\<open>Error()\<close> text of an
  \<^verbatim>\<open>UnauthorizedError\<close>; and \<^verbatim>\<open>sort.Slice\<close> of Go's library, whose algorithm
  depends on the release and on the length of the slice and which promises no order
  among equal elements: \<open>SortSlice h before xs\<close> is the order in which it leaves the
  elements \<open>xs\<close>. Logging is left out, but not the dereferences made to build a log
  line.
\<close>

record 's Handler =
  GetGitCli :: "IntegrationConfig \<Rightarrow> error + 's Client"
  ExtractCommands :: "string \<Rightarrow> Command list"
  UnauthorizedErrorText :: "string \<Rightarrow> string \<Rightarrow> string"
  SortSlice :: "(IssueComment \<Rightarrow> IssueComment \<Rightarrow> bool) \<Rightarrow> IssueComment list \<Rightarrow> IssueComment list"

definition ErrorText :: "'s Handler \<Rightarrow> error \<Rightarrow> string" where
  "ErrorText h err =
     (case err of
        Errorf msg \<Rightarrow> msg
      | UnauthorizedError user repo \<Rightarrow> UnauthorizedErrorText h user repo)"

definition approvedLabel :: string where
  "approvedLabel = ''approved''"

subsection \<open>The generated comments\<close>

definition newline :: string where
  "newline = [CHR 0x0A]"

definition generateUserUnauthorizedComment :: "string \<Rightarrow> string" where
  "generateUserUnauthorizedComment user =
     ''[APPROVE ALERT]'' @ newline @ newline
     @ ''User `'' @ user @ ''` is not allowed to approve/cancel approve this pull request.''
     @ newline @ newline
     @ ''Users who meet the following conditions can approve the pull request.'' @ newline
     @ ''- Not an author of the pull request'' @ newline
     @ ''- (For GitHub) Have write permission on the repository'' @ newline
     @ ''- (For GitLab) Be Developer, Maintainer, or Owner'' @ newline"

definition generateApprovedComment :: "string \<Rightarrow> string" where
  "generateApprovedComment user =
     ''[APPROVE ALERT]'' @ newline @ newline
     @ ''User `'' @ user @ ''` approved this pull request!''"

definition generateApproveCanceledComment :: "string \<Rightarrow> string" where
  "generateApproveCanceledComment user =
     ''[APPROVE ALERT]'' @ newline @ newline
     @ ''User `'' @ user @ ''` canceled the approval.''"

definition generateHelpComment :: string where
  "generateHelpComment =
     ''[APPROVE ALERT]'' @ newline @ newline @ ''Approve comment is malformed''
     @ newline @ newline
     @ ''You can approve or cancel the approve the pull request by commenting...'' @ newline
     @ ''- (For GitHub) `/approve`'' @ newline
     @ ''- (For GitHub) `/approve cancel`'' @ newline
     @ ''- (For GitLab) `/ci-approve`'' @ newline
     @ ''- (For GitLab) `/ci-approve cancel`'' @ newline"

subsection \<open>authorize\<close>

definition authorize ::
  "IntegrationConfig \<Rightarrow> User \<Rightarrow> User \<Rightarrow> 's Client \<Rightarrow> (error option, 's) act" where
  "authorize cfg sender author gitCli =
     (if User.ID sender = User.ID author
      then ret (Some (UnauthorizedError (User.Name sender) (Repository cfg)))
      else andThen (CanUserWriteToRepo gitCli sender) (\<lambda>res.
             case res of
               Inl err \<Rightarrow> ret (Some err)
             | Inr ok \<Rightarrow>
                 if ok then ret None
                 else ret (Some (UnauthorizedError (User.Name sender) (Repository cfg)))))"

subsection \<open>The approve and cancel commands\<close>

text \<open>
  Both commands first build a log line from \<^verbatim>\<open>issueComment.Issue.PullRequest.URL\<close>,
  which panics on a comment without a pull request.
\<close>

definition handleApproveCommand :: "IssueComment \<Rightarrow> 's Client \<Rightarrow> (error option, 's) act" where
  "handleApproveCommand issueComment gitCli =
     (case Issue.PullRequest (Issue issueComment) of
        None \<Rightarrow> panic
      | Some pr \<Rightarrow>
          andThen (SetLabel gitCli IssueTypePullRequest (PullRequest.ID pr) approvedLabel) (\<lambda>err.
            if err \<noteq> None then ret err
            else andThen (RegisterComment gitCli IssueTypePullRequest (PullRequest.ID pr)
                            (generateApprovedComment (User.Name (IssueComment.Author issueComment))))
                   (\<lambda>err. if err \<noteq> None then ret err else ret None)))"

text \<open>The test \<^verbatim>\<open>strings.Contains(err.Error(), "Label does not exist")\<close>.\<close>

definition labelDoesNotExist :: "'s Handler \<Rightarrow> error \<Rightarrow> bool" where
  "labelDoesNotExist h err = Contains (ErrorText h err) ''Label does not exist''"

definition handleApproveCancelCommand ::
  "'s Handler \<Rightarrow> IssueComment \<Rightarrow> 's Client \<Rightarrow> (error option, 's) act" where
  "handleApproveCancelCommand h issueComment gitCli =
     (case Issue.PullRequest (Issue issueComment) of
        None \<Rightarrow> panic
      | Some pr \<Rightarrow>
          andThen (DeleteLabel gitCli IssueTypePullRequest (PullRequest.ID pr) approvedLabel) (\<lambda>err.
            if err \<noteq> None \<and> \<not> labelDoesNotExist h (the err) then ret err
            else andThen (RegisterComment gitCli IssueTypePullRequest (PullRequest.ID pr)
                            (generateApproveCanceledComment
                               (User.Name (IssueComment.Author issueComment))))
                   (\<lambda>err. if err \<noteq> None then ret err else ret None)))"

subsection \<open>The check command\<close>

text \<open>
  The inner loop of \<^verbatim>\<open>checkApproval\<close> over the commands of one comment: \<open>Some\<close> of
  the verdict at a \<^verbatim>\<open>return\<close>, \<open>None\<close> when the loop runs to its end.
\<close>

fun checkCommands :: "Command list \<Rightarrow> bool option" where
  "checkCommands [] = None"
| "checkCommands (command # commands) =
     (if Type command = ''approve'' \<and> length (Args command) = 0 then Some True
      else if Type command = ''approve'' \<and> length (Args command) = 1
              \<and> Args command ! 0 = ''cancel'' then Some False
      else checkCommands commands)"

fun checkApproval :: "(string \<Rightarrow> Command list) \<Rightarrow> IssueComment list \<Rightarrow> bool" where
  "checkApproval extractCommands [] = False"
| "checkApproval extractCommands (comment # comments) =
     (if ReviewState comment = PullRequestReviewStateApproved then True
      else if ReviewState comment = PullRequestReviewStateUnapproved then False
      else case checkCommands (extractCommands (Body (Comment comment))) of
             Some verdict \<Rightarrow> verdict
           | None \<Rightarrow> checkApproval extractCommands comments)"

definition syncApproval ::
  "'s Handler \<Rightarrow> bool \<Rightarrow> bool \<Rightarrow> IssueComment \<Rightarrow> 's Client \<Rightarrow> (error option, 's) act" where
  "syncApproval h label comment issueComment gitCli =
     andThen (if comment \<and> \<not> label then handleApproveCommand issueComment gitCli else ret None)
       (\<lambda>err.
          if err \<noteq> None then ret err
          else andThen (if \<not> comment \<and> label
                        then handleApproveCancelCommand h issueComment gitCli else ret None)
                 (\<lambda>err. if err \<noteq> None then ret err else ret None))"

text \<open>
  The loop over the labels, left at the first label with the name.
\<close>

fun hasLabel :: "string \<Rightarrow> IssueLabel list \<Rightarrow> bool" where
  "hasLabel name [] = False"
| "hasLabel name (l # ls) = (if IssueLabel.Name l = name then True else hasLabel name ls)"

text \<open>
  \<^verbatim>\<open>metav1.Time.Before\<close> on two pointers: false when either is nil. The comparison
  handed to \<^verbatim>\<open>sort.Slice\<close> puts the later comment first.
\<close>

definition Before :: "int option \<Rightarrow> int option \<Rightarrow> bool" where
  "Before t u = (case (t, u) of (Some a, Some b) \<Rightarrow> a < b | _ \<Rightarrow> False)"

definition newerFirst :: "IssueComment \<Rightarrow> IssueComment \<Rightarrow> bool" where
  "newerFirst ci cj = Before (CreatedAt (Comment cj)) (CreatedAt (Comment ci))"

text \<open>
  \<^verbatim>\<open>sort.Slice\<close> sorts the listed comments in place: the new order is written into the
  array of the slice that \<^verbatim>\<open>ListComments\<close> returned, before the comments are read.
\<close>

definition handleApproveCheckCommand ::
  "'s Handler \<Rightarrow> IssueComment \<Rightarrow> 's Client \<Rightarrow> (error option, 's) act" where
  "handleApproveCheckCommand h issueComment gitCli =
     (case Issue.PullRequest (Issue issueComment) of
        None \<Rightarrow> panic
      | Some pr \<Rightarrow>
          andThen (ListLabels gitCli (PullRequest.ID pr)) (\<lambda>res.
            case res of
              Inl err \<Rightarrow> ret (Some err)
            | Inr labels \<Rightarrow>
                (let approveLabel = hasLabel ''approved'' labels
                 in andThen (ListComments gitCli (PullRequest.ID pr)) (\<lambda>res.
                      case res of
                        Inl err \<Rightarrow> ret (Some err)
                      | Inr (comments, writeInPlace) \<Rightarrow>
                          (let sorted = SortSlice h newerFirst comments
                           in andThen (modify (writeInPlace sorted)) (\<lambda>u.
                                let approvedComment = checkApproval (ExtractCommands h) sorted
                                in andThen (syncApproval h approveLabel approvedComment
                                              issueComment gitCli)
                                     (\<lambda>err. if err \<noteq> None then ret err else ret None)))))))"

subsection \<open>The label event\<close>

definition handleLabelEvent ::
  "'s Handler \<Rightarrow> Webhook \<Rightarrow> IntegrationConfig \<Rightarrow> 's Client \<Rightarrow> (error option, 's) act" where
  "handleLabelEvent h wh ic gitCli =
     (case Webhook.PullRequest wh of
        None \<Rightarrow> panic
      | Some pr \<Rightarrow>
          (let isApprovedChanged = hasLabel approvedLabel (LabelChanged pr)
           in if \<not> isApprovedChanged then ret None
              else
                (let isApprovedLabeled = hasLabel approvedLabel (Labels pr)
                 in andThen (authorize ic (Sender wh) (PullRequest.Author pr) gitCli) (\<lambda>err.
                      case err of
                        None \<Rightarrow> ret None
                      | Some (Errorf msg) \<Rightarrow> ret (Some (Errorf msg))
                      | Some (UnauthorizedError user repo) \<Rightarrow>
                          andThen
                            (if isApprovedLabeled
                             then andThen (DeleteLabel gitCli IssueTypePullRequest
                                             (PullRequest.ID pr) approvedLabel)
                                    (\<lambda>err. if err \<noteq> None \<and> \<not> labelDoesNotExist h (the err)
                                            then ret err else ret None)
                             else andThen (SetLabel gitCli IssueTypePullRequest
                                             (PullRequest.ID pr) approvedLabel)
                                    (\<lambda>err. if err \<noteq> None then ret err else ret None))
                            (\<lambda>err.
                               if err \<noteq> None then ret err
                               else andThen (RegisterComment gitCli IssueTypePullRequest
                                               (PullRequest.ID pr)
                                               (generateUserUnauthorizedComment user))
                                      (\<lambda>err. if err \<noteq> None then ret err else ret None))))))"

subsection \<open>Handle and HandleChatOps\<close>

text \<open>
  The two tests at the head of \<^verbatim>\<open>Handle\<close>. The first reads
  \<^verbatim>\<open>wh.IssueComment.Issue.PullRequest.State\<close> once the event is a review with a
  comment, and panics there on a comment without a pull request.
\<close>

definition isApproval :: "Webhook \<Rightarrow> bool go" where
  "isApproval wh =
     (if EventType wh = EventTypePullRequestReview then
        (case Webhook.IssueComment wh of
           None \<Rightarrow> Return False
         | Some issueComment \<Rightarrow>
             (case Issue.PullRequest (Issue issueComment) of
                None \<Rightarrow> Panic
              | Some pr \<Rightarrow>
                  Return (PullRequest.State pr = PullRequestStateOpen
                          \<and> ReviewState issueComment \<noteq> PullRequestReviewStateOther [])))
      else Return False)"

definition isLabeled :: "Webhook \<Rightarrow> bool" where
  "isLabeled wh =
     (EventType wh = EventTypePullRequest \<and>
      (case Webhook.PullRequest wh of
         None \<Rightarrow> False
       | Some pr \<Rightarrow>
           Action pr = PullRequestActionLabeled \<or> Action pr = PullRequestActionUnlabeled))"

definition Handle ::
  "'s Handler \<Rightarrow> Webhook \<Rightarrow> IntegrationConfig \<Rightarrow> (error option, 's) act" where
  "Handle h wh ic =
     (if Token ic = None then ret None
      else case isApproval wh of
             Panic \<Rightarrow> panic
           | Return approval \<Rightarrow>
               if \<not> approval \<and> \<not> isLabeled wh then ret None
               else case GetGitCli h ic of
                      Inl err \<Rightarrow> ret (Some err)
                    | Inr gitCli \<Rightarrow>
                        if isLabeled wh then handleLabelEvent h wh ic gitCli
                        else case Webhook.IssueComment wh of
                               None \<Rightarrow> panic
                             | Some issueComment \<Rightarrow>
                                 (case ReviewState issueComment of
                                    PullRequestReviewStateApproved \<Rightarrow>
                                      handleApproveCommand issueComment gitCli
                                  | PullRequestReviewStateUnapproved \<Rightarrow>
                                      handleApproveCancelCommand h issueComment gitCli
                                  | PullRequestReviewStateOther other \<Rightarrow> ret None))"

text \<open>
  \<^verbatim>\<open>HandleChatOps\<close> starts by reading \<^verbatim>\<open>webhook.IssueComment.Issue\<close>: a webhook
  without an issue comment is a nil dereference.
\<close>

definition HandleChatOps ::
  "'s Handler \<Rightarrow> Command \<Rightarrow> Webhook \<Rightarrow> IntegrationConfig \<Rightarrow> (error option, 's) act" where
  "HandleChatOps h command webhook config =
     (case Webhook.IssueComment webhook of
        None \<Rightarrow> panic
      | Some issueComment \<Rightarrow>
          (case Issue.PullRequest (Issue issueComment) of
             None \<Rightarrow> ret None
           | Some pr \<Rightarrow>
               if PullRequest.State pr \<noteq> PullRequestStateOpen then ret None
               else if Token config = None then ret None
               else case GetGitCli h config of
                      Inl err \<Rightarrow> ret (Some err)
                    | Inr gitCli \<Rightarrow>
                        andThen (authorize config (Sender webhook) (PullRequest.Author pr) gitCli)
                          (\<lambda>err.
                             case err of
                               Some (Errorf msg) \<Rightarrow> ret (Some (Errorf msg))
                             | Some (UnauthorizedError user repo) \<Rightarrow>
                                 andThen (RegisterComment gitCli IssueTypePullRequest
                                            (PullRequest.ID pr)
                                            (generateUserUnauthorizedComment user))
                                   (\<lambda>err. if err \<noteq> None then ret err else ret None)
                             | None \<Rightarrow>
                                 if length (Args command) = 0
                                 then handleApproveCommand issueComment gitCli
                                 else if length (Args command) = 1
                                         \<and> Args command ! 0 = ''cancel''
                                 then handleApproveCancelCommand h issueComment gitCli
                                 else if length (Args command) = 1
                                         \<and> Args command ! 0 = ''check''
                                 then handleApproveCheckCommand h issueComment gitCli
                                 else andThen (RegisterComment gitCli IssueTypePullRequest
                                                 (PullRequest.ID pr) generateHelpComment)
                                        (\<lambda>err. if err \<noteq> None then ret err else ret None))))"

subsection \<open>What sort.Slice promises, and what it does to a short slice\<close>



text \<open>
  On a slice of at most six elements \<^verbatim>\<open>sort.Slice\<close> is, in every release of Go, the
  plain insertion sort of package \<^verbatim>\<open>sort\<close>: each element in turn is swapped with its
  left neighbour for as long as it is before that neighbour. The part already passed is
  held with the nearest neighbour first.
\<close>

fun sink :: "('a \<Rightarrow> 'a \<Rightarrow> bool) \<Rightarrow> 'a \<Rightarrow> 'a list \<Rightarrow> 'a list" where
  "sink before x [] = [x]"
| "sink before x (p # ps) = (if before x p then p # sink before x ps else x # p # ps)"

definition insertionSort :: "('a \<Rightarrow> 'a \<Rightarrow> bool) \<Rightarrow> 'a list \<Rightarrow> 'a list" where
  "insertionSort before xs = rev (foldl (\<lambda>passed x. sink before x passed) [] xs)"

subsection \<open>The words of the check algorithm\<close>





text \<open>
  The specification's revert of a label event: the label is deleted when the event shows
  it on the pull request and set when it does not; then the rejection comment.
\<close>

definition revertCall :: "PullRequest \<Rightarrow> gitCall" where
  "revertCall pr =
     (if hasLabel approvedLabel (Labels pr)
      then GitDeleteLabel IssueTypePullRequest (PullRequest.ID pr) approvedLabel
      else GitSetLabel IssueTypePullRequest (PullRequest.ID pr) approvedLabel)"

definition revertOn :: "'s Client \<Rightarrow> PullRequest \<Rightarrow> (error option, 's) act" where
  "revertOn gitCli pr =
     (if hasLabel approvedLabel (Labels pr)
      then DeleteLabel gitCli IssueTypePullRequest (PullRequest.ID pr) approvedLabel
      else SetLabel gitCli IssueTypePullRequest (PullRequest.ID pr) approvedLabel)"

definition rejectionCall :: "PullRequest \<Rightarrow> string \<Rightarrow> gitCall" where
  "rejectionCall pr user =
     GitRegisterComment IssueTypePullRequest (PullRequest.ID pr)
       (generateUserUnauthorizedComment user)"

text \<open>
  Modelled from the spec: the body of \<^verbatim>\<open>chatops.ExtractCommands\<close> is missing; the
  specification says that it scans a comment body for lines beginning with a slash and
  splits each into a command name and a whitespace-separated argument list. It serves
  as a concrete extractor in the examples; the properties of \<^verbatim>\<open>checkApproval\<close> hold
  for every extractor.
\<close>

definition Fields :: "string \<Rightarrow> string list" where
  "Fields s = filter (\<lambda>w. w \<noteq> []) (Split s '' '')"

definition extractLine :: "string \<Rightarrow> Command list" where
  "extractLine line =
     (case Fields line of
        (CHR ''/'' # name) # args \<Rightarrow> [\<lparr>Type = name, Args = args\<rparr>]
      | _ \<Rightarrow> [])"

definition extractCommandsOfSpec :: "string \<Rightarrow> Command list" where
  "extractCommandsOfSpec body = concat (map extractLine (Split body newline))"

subsection \<open>A concrete handler and store\<close>

text \<open>
  For the examples: a handler wired to a given client, with the insertion sort of Go's
  library as \<^verbatim>\<open>sort.Slice\<close> (the text it gives an \<^verbatim>\<open>UnauthorizedError\<close> is chosen
  here), and a store with one repository, three users and pull request 42 by alice.
\<close>

definition exampleHandler :: "(IntegrationConfig \<Rightarrow> 's Client) \<Rightarrow> 's Handler" where
  "exampleHandler newClient =
     \<lparr>GetGitCli = (\<lambda>cfg. Inr (newClient cfg)),
      ExtractCommands = extractCommandsOfSpec,
      UnauthorizedErrorText = (\<lambda>user repo. user @ '' is not authorized on '' @ repo),
      SortSlice = insertionSort\<rparr>"

definition alice :: User where
  "alice = \<lparr>User.ID = 1, User.Name = ''alice''\<rparr>"

definition bob :: User where
  "bob = \<lparr>User.ID = 2, User.Name = ''bob''\<rparr>"

definition carol :: User where
  "carol = \<lparr>User.ID = 3, User.Name = ''carol''\<rparr>"

definition exampleConfig :: IntegrationConfig where
  "exampleConfig = \<lparr>Repository = ''tmax/cicd'', Token = Some ''secret''\<rparr>"

definition labelNamed :: "string \<Rightarrow> IssueLabel" where
  "labelNamed name = \<lparr>IssueLabel.Name = name\<rparr>"

definition examplePullRequest :: "IssueLabel list \<Rightarrow> PullRequest" where
  "examplePullRequest labels =
     \<lparr>PullRequest.ID = 42, State = PullRequestStateOpen, Action = PullRequestActionLabeled,
      PullRequest.Author = alice, URL = ''https://git.example/tmax/cicd/pull/42'',
      Labels = labels, LabelChanged = [labelNamed ''approved'']\<rparr>"

definition exampleRepos :: "IssueLabel list \<Rightarrow> Repos" where
  "exampleRepos labels =
     Some [''tmax/cicd'' \<mapsto>
       \<lparr>UserCanWrite = Some [''alice'' \<mapsto> True, ''bob'' \<mapsto> True, ''carol'' \<mapsto> False],
        PullRequests = Some [42 \<mapsto> examplePullRequest labels],
        Comments = Some Map.empty\<rparr>]"

definition exampleReposWith :: "IssueLabel list \<Rightarrow> IssueComment list \<Rightarrow> Repos" where
  "exampleReposWith labels comments =
     Some [''tmax/cicd'' \<mapsto>
       \<lparr>UserCanWrite = Some [''alice'' \<mapsto> True, ''bob'' \<mapsto> True, ''carol'' \<mapsto> False],
        PullRequests = Some [42 \<mapsto> examplePullRequest labels],
        Comments = Some [42 \<mapsto> comments]\<rparr>]"

definition commentsOf :: "Repos \<Rightarrow> string \<Rightarrow> int \<Rightarrow> IssueComment list option" where
  "commentsOf repos repoName issueNo =
     (case lookupRepo repos repoName of
        Inl err \<Rightarrow> None
      | Inr repo \<Rightarrow> (case Comments repo of None \<Rightarrow> None | Some comments \<Rightarrow> comments issueNo))"

definition labelEvent :: "User \<Rightarrow> IssueLabel list \<Rightarrow> Webhook" where
  "labelEvent sender labels =
     \<lparr>EventType = EventTypePullRequest, Sender = sender,
      Webhook.PullRequest = Some (examplePullRequest labels), Webhook.IssueComment = None\<rparr>"

definition commentOn :: "PullRequestReviewState \<Rightarrow> string \<Rightarrow> int \<Rightarrow> IssueComment" where
  "commentOn state body time =
     \<lparr>Comment = \<lparr>Body = body, CreatedAt = Some time\<rparr>,
      Issue = \<lparr>Issue.PullRequest = Some (examplePullRequest [])\<rparr>,
      IssueComment.Author = bob, ReviewState = state\<rparr>"

definition commentWithoutTime :: "PullRequestReviewState \<Rightarrow> string \<Rightarrow> IssueComment" where
  "commentWithoutTime state body =
     \<lparr>Comment = \<lparr>Body = body, CreatedAt = None\<rparr>,
      Issue = \<lparr>Issue.PullRequest = Some (examplePullRequest [])\<rparr>,
      IssueComment.Author = bob, ReviewState = state\<rparr>"

section \<open>Package controllers: the IntegrationJob reconciler\<close>

subsection \<open>The resources and the cluster\<close>

text \<open>
  Of \<^verbatim>\<open>cicdv1.IntegrationJob\<close> (declared in \<^verbatim>\<open>api/v1\<close>) the reconciler reads and
  writes the fields below. \<^verbatim>\<open>metav1.Time\<close> is an instant, a nil pointer is \<open>None\<close>.
  Of the job states only \<^verbatim>\<open>IntegrationJobStateFailed\<close> is named by the reconciler;
  the others are kept by their text. A nil slice and an empty one are both \<open>[]\<close>.
\<close>

datatype IntegrationJobState = IntegrationJobStateFailed | IntegrationJobStateOther string

record IntegrationJobStatus =
  State :: IntegrationJobState
  Message :: string
  CompletionTime :: "int option"

record IntegrationJob =
  Name :: string
  Namespace :: string
  Finalizers :: "string list"
  DeletionTimestamp :: "int option"
  ConfigRefName :: string
  Status :: IntegrationJobStatus

type_synonym NamespacedName = "string \<times> string"

text \<open>
  An error of the API machinery: \<^verbatim>\<open>errors.IsNotFound\<close> and \<^verbatim>\<open>Error()\<close> are all
  the reconciler asks of it.
\<close>

datatype apiError = ApiError (IsNotFound: bool) (Error: string)

text \<open>
  What one pass does to the world, in order: the reads and patches sent to the cluster
  client and the notifications sent to the scheduler, each with the object as it is at
  the call. A patch carries the instance and the original it is merged from.
\<close>

datatype call =
    CallGetJob NamespacedName
  | CallGetConfig NamespacedName
  | CallGetPipelineRun NamespacedName
  | CallPatch IntegrationJob IntegrationJob
  | CallStatusPatch IntegrationJob IntegrationJob
  | CallNotify IntegrationJob

text \<open>
  The collaborators of the reconciler, whose code is not among the sources at hand, are
  parameters: the answers of the cluster client (a successful patch writes the server's
  answer back into the instance), \<^verbatim>\<open>pipelinemanager.Name\<close>,
  \<^verbatim>\<open>Status.SetDefaults\<close> and \<^verbatim>\<open>pm.ReflectStatus\<close> (which updates the instance and
  may fail). The package constant \<^verbatim>\<open>finalizer\<close> is declared beside the
  IntegrationConfig reconciler and is a parameter as well.
\<close>

record ('cfg, 'run) Cluster =
  GetJob :: "NamespacedName \<Rightarrow> apiError + IntegrationJob"
  GetConfig :: "NamespacedName \<Rightarrow> apiError + 'cfg"
  GetPipelineRun :: "NamespacedName \<Rightarrow> apiError + 'run"
  Patch :: "IntegrationJob \<Rightarrow> IntegrationJob \<Rightarrow> apiError + IntegrationJob"
  StatusPatch :: "IntegrationJob \<Rightarrow> IntegrationJob \<Rightarrow> apiError + IntegrationJob"
  pipelinemanagerName :: "IntegrationJob \<Rightarrow> string"
  SetDefaults :: "IntegrationJobStatus \<Rightarrow> IntegrationJobStatus"
  ReflectStatus :: "'run option \<Rightarrow> IntegrationJob \<Rightarrow> 'cfg \<Rightarrow> apiError option \<times> IntegrationJob"

subsection \<open>handleFinalizer\<close>

text \<open>
  The first loop of \<^verbatim>\<open>handleFinalizer\<close>: the index of the first entry equal to the
  finalizer; \<open>None\<close> stands for \<^verbatim>\<open>found = false, idx = -1\<close>.
\<close>

fun findFinalizer :: "string \<Rightarrow> string list \<Rightarrow> nat option" where
  "findFinalizer finalizer [] = None"
| "findFinalizer finalizer (f # fs) =
     (if f = finalizer then Some 0 else map_option Suc (findFinalizer finalizer fs))"

text \<open>
  The deletion of the entry at \<open>idx\<close>: a single entry leaves nil; otherwise the last
  entry is copied over it, the last slot is cleared and the slice loses it.
\<close>

definition deleteFinalizer :: "nat \<Rightarrow> string list \<Rightarrow> string list" where
  "deleteFinalizer idx fs =
     (if length fs = 1 then []
      else (let last = length fs - 1 in take last (fs[idx := fs ! last, last := []])))"

text \<open>
  The result is \<^verbatim>\<open>(exit, err)\<close>, then the instance as the call leaves it, then the
  calls made.
\<close>

definition handleFinalizer ::
  "('cfg, 'run) Cluster \<Rightarrow> string \<Rightarrow> IntegrationJob \<Rightarrow> IntegrationJob
     \<Rightarrow> (bool \<times> apiError option) \<times> IntegrationJob \<times> call list" where
  "handleFinalizer r finalizer instance original =
     (case findFinalizer finalizer (Finalizers instance) of
        None \<Rightarrow>
          (let instance1 = instance\<lparr>Finalizers := Finalizers instance @ [finalizer]\<rparr>
           in case Patch r instance1 original of
                Inl err \<Rightarrow> ((False, Some err), instance1, [CallPatch instance1 original])
              | Inr answer \<Rightarrow> ((True, None), answer, [CallPatch instance1 original]))
      | Some idx \<Rightarrow>
          if DeletionTimestamp instance \<noteq> None then
            (let instance1 = instance\<lparr>Finalizers := deleteFinalizer idx (Finalizers instance)\<rparr>
             in case Patch r instance1 original of
                  Inl err \<Rightarrow>
                    ((False, Some err), instance1, [CallNotify instance, CallPatch instance1 original])
                | Inr answer \<Rightarrow>
                    ((True, None), answer, [CallNotify instance, CallPatch instance1 original]))
          else ((False, None), instance, []))"

subsection \<open>patchJobFailed and Reconcile\<close>

text \<open>A failure of the status patch inside \<^verbatim>\<open>patchJobFailed\<close> is only logged.\<close>

definition patchJobFailed ::
  "('cfg, 'run) Cluster \<Rightarrow> IntegrationJob \<Rightarrow> IntegrationJob \<Rightarrow> string
     \<Rightarrow> IntegrationJob \<times> call list" where
  "patchJobFailed r instance original message =
     (let instance1 =
            instance\<lparr>Status := (Status instance)\<lparr>State := IntegrationJobStateFailed,
                                                  Message := message\<rparr>\<rparr>
      in case StatusPatch r instance1 original of
           Inl err \<Rightarrow> (instance1, [CallStatusPatch instance1 original])
         | Inr answer \<Rightarrow> (answer, [CallStatusPatch instance1 original]))"

text \<open>
  The fetch of the PipelineRun: a not-found answer leaves \<^verbatim>\<open>pr = nil\<close> and is no
  failure; any other error is.
\<close>

definition getPipelineRun ::
  "('cfg, 'run) Cluster \<Rightarrow> NamespacedName \<Rightarrow> apiError + 'run option" where
  "getPipelineRun r runKey =
     (case GetPipelineRun r runKey of
        Inl err \<Rightarrow> if \<not> IsNotFound err then Inl err else Inr None
      | Inr run \<Rightarrow> Inr (Some run))"

text \<open>
  The part of \<^verbatim>\<open>Reconcile\<close> below \<^verbatim>\<open>defer r.scheduler.Notify(instance)\<close>: the
  returned error, the instance at the return, and the calls made before the deferred one.
\<close>

definition reconcileStatus ::
  "('cfg, 'run) Cluster \<Rightarrow> IntegrationJob \<Rightarrow> IntegrationJob
     \<Rightarrow> apiError option \<times> IntegrationJob \<times> call list" where
  "reconcileStatus r instance original =
     (let configKey = (ConfigRefName instance, Namespace instance);
          runKey = (pipelinemanagerName r instance, Namespace instance)
      in case GetConfig r configKey of
           Inl err \<Rightarrow>
             (let (instance1, calls) = patchJobFailed r instance original (Error err)
              in (None, instance1, CallGetConfig configKey # calls))
         | Inr config \<Rightarrow>
             (case getPipelineRun r runKey of
                Inl err \<Rightarrow>
                  (let (instance1, calls) = patchJobFailed r instance original (Error err)
                   in (None, instance1,
                       CallGetConfig configKey # CallGetPipelineRun runKey # calls))
              | Inr pr \<Rightarrow>
                  (let instance1 = instance\<lparr>Status := SetDefaults r (Status instance)\<rparr>
                   in case ReflectStatus r pr instance1 config of
                        (Some err, instance2) \<Rightarrow>
                          (let (instance3, calls) =
                                 patchJobFailed r instance2 original (Error err)
                           in (None, instance3,
                               CallGetConfig configKey # CallGetPipelineRun runKey # calls))
                      | (None, instance2) \<Rightarrow>
                          (case StatusPatch r instance2 original of
                             Inl err \<Rightarrow>
                               (Some err, instance2,
                                [CallGetConfig configKey, CallGetPipelineRun runKey,
                                 CallStatusPatch instance2 original])
                           | Inr answer \<Rightarrow>
                               (None, answer,
                                [CallGetConfig configKey, CallGetPipelineRun runKey,
                                 CallStatusPatch instance2 original])))))"

text \<open>
  \<^verbatim>\<open>Reconcile\<close> returns \<^verbatim>\<open>(ctrl.Result{}, err)\<close> with an empty result on every
  path, so the model returns the error and the calls of the pass. The deferred
  notification runs after the return value is fixed, with the instance as it is then.
  The original is a deep copy, so nothing is shared between it and the instance.
\<close>

definition Reconcile ::
  "('cfg, 'run) Cluster \<Rightarrow> string \<Rightarrow> NamespacedName \<Rightarrow> apiError option \<times> call list" where
  "Reconcile r finalizer req =
     (case GetJob r req of
        Inl err \<Rightarrow> (if IsNotFound err then None else Some err, [CallGetJob req])
      | Inr instance \<Rightarrow>
          (let original = instance
           in case handleFinalizer r finalizer instance original of
                ((exit, Some err), instance1, calls1) \<Rightarrow>
                  (let (instance2, calls2) = patchJobFailed r instance1 original (Error err)
                   in (None, CallGetJob req # calls1 @ calls2))
              | ((exit, None), instance1, calls1) \<Rightarrow>
                  if exit then (None, CallGetJob req # calls1)
                  else if CompletionTime (Status instance1) \<noteq> None
                  then (None, CallGetJob req # calls1)
                  else (let (err, instance2, calls2) = reconcileStatus r instance1 original
                        in (err, CallGetJob req # calls1 @ calls2 @ [CallNotify instance2]))))"

subsection \<open>Reading the calls of a pass\<close>

text \<open>
  The jobs handed to \<^verbatim>\<open>scheduler.Notify\<close>, the instances sent with
  \<^verbatim>\<open>Client.Patch\<close> and those sent with \<^verbatim>\<open>Client.Status().Patch\<close>, in order.
\<close>

fun notified :: "call list \<Rightarrow> IntegrationJob list" where
  "notified [] = []"
| "notified (CallNotify job # calls) = job # notified calls"
| "notified (c # calls) = notified calls"

fun patched :: "call list \<Rightarrow> IntegrationJob list" where
  "patched [] = []"
| "patched (CallPatch instance original # calls) = instance # patched calls"
| "patched (c # calls) = patched calls"

fun statusPatched :: "call list \<Rightarrow> IntegrationJob list" where
  "statusPatched [] = []"
| "statusPatched (CallStatusPatch instance original # calls) = instance # statusPatched calls"
| "statusPatched (c # calls) = statusPatched calls"

text \<open>The job with its status forced to Failed, as \<^verbatim>\<open>patchJobFailed\<close> leaves it.\<close>

definition failedWith :: "IntegrationJob \<Rightarrow> string \<Rightarrow> IntegrationJob" where
  "failedWith job message =
     job\<lparr>Status := (Status job)\<lparr>State := IntegrationJobStateFailed, Message := message\<rparr>\<rparr>"

subsection \<open>A concrete job and cluster\<close>

text \<open>
  A completed job under deletion that holds the finalizer \<open>fin\<close> before two others, and
  a cluster in which every call succeeds and no PipelineRun exists yet.
\<close>

definition completedJob :: IntegrationJob where
  "completedJob =
     \<lparr>Name = ''job'', Namespace = ''ns'', Finalizers = [''fin'', ''a'', ''b''],
      DeletionTimestamp = Some 1, ConfigRefName = ''cfg'',
      Status = \<lparr>State = IntegrationJobStateOther ''completed'', Message = [],
                CompletionTime = Some 5\<rparr>\<rparr>"

definition runningJob :: IntegrationJob where
  "runningJob =
     completedJob\<lparr>DeletionTimestamp := None,
       Status := \<lparr>State = IntegrationJobStateOther ''running'', Message = [],
                  CompletionTime = None\<rparr>\<rparr>"

definition quietCluster :: "IntegrationJob \<Rightarrow> (unit, unit) Cluster" where
  "quietCluster job =
     \<lparr>GetJob = (\<lambda>key. Inr job),
      GetConfig = (\<lambda>key. Inr ()),
      GetPipelineRun = (\<lambda>key. Inl (ApiError True ''pipelineruns not found'')),
      Patch = (\<lambda>instance original. Inr instance),
      StatusPatch = (\<lambda>instance original. Inr instance),
      pipelinemanagerName = Name,
      SetDefaults = (\<lambda>status. status),
      ReflectStatus = (\<lambda>pr instance config. (None, instance))\<rparr>"

definition conflictCluster :: "IntegrationJob \<Rightarrow> (unit, unit) Cluster" where
  "conflictCluster job =
     (quietCluster job)\<lparr>Patch := (\<lambda>instance original. Inl (ApiError False ''conflict''))\<rparr>"

definition noConfigCluster :: "IntegrationJob \<Rightarrow> (unit, unit) Cluster" where
  "noConfigCluster job =
     (quietCluster job)\<lparr>GetConfig := (\<lambda>key. Inl (ApiError True ''integrationconfigs not found''))\<rparr>"

section \<open>Properties of the rate-limit helpers\<close>

subsection \<open>Decimal conversion\<close>

lemma digitVal_digitChar: "d < 10 \<Longrightarrow> digitVal (digitChar d) = Some d"
proof -
  assume "d < 10"
  then have "d \<in> {0, 1, 2, 3, 4, 5, 6, 7, 8, 9}" by auto
  then show ?thesis
    by (auto simp: digitVal_def digitChar_def)
qed

lemma digitChar_not_sep:
  "d < 10 \<Longrightarrow> digitChar d \<noteq> CHR ''.'' \<and> digitChar d \<noteq> CHR '':''
     \<and> digitChar d \<noteq> CHR ''-'' \<and> digitChar d \<noteq> CHR ''+''"
proof -
  assume "d < 10"
  then have "d \<in> {0, 1, 2, 3, 4, 5, 6, 7, 8, 9}" by auto
  then show ?thesis
    by (auto simp: digitChar_def)
qed

lemma parseDigits_snoc:
  "parseDigits acc (ds @ [c]) =
     (case parseDigits acc ds of
        None \<Rightarrow> None
      | Some n \<Rightarrow> (case digitVal c of None \<Rightarrow> None | Some d \<Rightarrow> Some (n * 10 + d)))"
  by (induction ds arbitrary: acc) (auto split: option.splits)

lemma parseDigits_FormatUint: "parseDigits 0 (FormatUint n) = Some n"
proof (induction n rule: FormatUint.induct)
  case (1 n)
  show ?case
  proof (cases "n < 10")
    case True
    then show ?thesis
      by (subst FormatUint.simps) (simp add: digitVal_digitChar)
  next
    case False
    with 1 have "parseDigits 0 (FormatUint (n div 10)) = Some (n div 10)" by simp
    with False show ?thesis
      by (subst FormatUint.simps) (simp add: parseDigits_snoc digitVal_digitChar)
  qed
qed

lemma FormatUint_nonempty: "FormatUint n \<noteq> []"
  by (subst FormatUint.simps) simp

lemma FormatUint_chars:
  "c \<in> set (FormatUint n) \<Longrightarrow>
     c \<noteq> CHR ''.'' \<and> c \<noteq> CHR '':'' \<and> c \<noteq> CHR ''-'' \<and> c \<noteq> CHR ''+''"
proof (induction n rule: FormatUint.induct)
  case (1 n)
  show ?case
  proof (cases "n < 10")
    case True
    with 1(2) have "c = digitChar n" by (subst (asm) FormatUint.simps) simp
    with True show ?thesis using digitChar_not_sep [of n] by simp
  next
    case False
    with 1(2) have "c \<in> set (FormatUint (n div 10)) \<or> c = digitChar (n mod 10)"
      by (subst (asm) FormatUint.simps) auto
    then show ?thesis
    proof
      assume "c \<in> set (FormatUint (n div 10))"
      with 1(1) False show ?thesis by simp
    next
      assume "c = digitChar (n mod 10)"
      then show ?thesis using digitChar_not_sep [of "n mod 10"] by simp
    qed
  qed
qed

lemma Atoi_FormatInt:
  assumes "- (2 ^ 63) \<le> i" and "i < 2 ^ 63"
  shows "Atoi (FormatInt i) = Some i"
proof (cases "i < 0")
  case True
  then show ?thesis using assms
    by (simp add: Atoi_def FormatInt_def FormatUint_nonempty parseDigits_FormatUint)
next
  case False
  obtain c cs where eq: "FormatUint (nat i) = c # cs"
    using FormatUint_nonempty [of "nat i"] by (cases "FormatUint (nat i)") auto
  then have "c \<in> set (FormatUint (nat i))" by simp
  then have "c \<noteq> CHR ''-''" "c \<noteq> CHR ''+''" using FormatUint_chars by blast+
  moreover have "parseDigits 0 (c # cs) = Some (nat i)"
    using parseDigits_FormatUint [of "nat i"] eq by simp
  ultimately show ?thesis using False assms eq
    by (simp add: Atoi_def FormatInt_def del: parseDigits.simps)
qed

lemma FormatInt_chars:
  "c \<in> set (FormatInt i) \<Longrightarrow> c \<noteq> CHR ''.'' \<and> c \<noteq> CHR '':''"
  using FormatUint_chars by (auto simp: FormatInt_def split: if_splits)

subsection \<open>Searching and splitting\<close>

lemma Index_skip:
  "c0 \<notin> set a \<Longrightarrow> Index (a @ (c0 # sep') @ b) (c0 # sep') = Some (length a)"
  by (induction a) auto

lemma Index_not_before:
  "c0 \<notin> set a \<Longrightarrow> Index (a @ b) (c0 # sep') = Some m \<Longrightarrow> length a \<le> m"
  by (induction a arbitrary: m) auto

lemma Split_skip:
  assumes "c0 \<notin> set a"
  shows "Split (a @ (c0 # sep') @ b) (c0 # sep') = a # Split b (c0 # sep')"
  using Index_skip [OF assms, of sep' b]
  by (subst Split.simps) simp

lemma Split_head_extends:
  assumes "c0 \<notin> set a"
  shows "\<exists>t ts. Split (a @ b) (c0 # sep') = (a @ t) # ts"
proof (cases "Index (a @ b) (c0 # sep')")
  case None
  then show ?thesis by (subst Split.simps) simp
next
  case (Some m)
  with assms have "length a \<le> m" by (rule Index_not_before)
  then have "take m (a @ b) = a @ take (m - length a) b" by simp
  with Some show ?thesis by (subst Split.simps) simp
qed

lemma Contains_append_left:
  "Contains t sub \<Longrightarrow> Contains (p @ t) sub"
  by (induction p) (auto simp: Contains_def)

lemma wrap64_id: "- (2 ^ 63) \<le> x \<Longrightarrow> x < 2 ^ 63 \<Longrightarrow> wrap64 x = x"
  by (simp add: wrap64_def)

subsection \<open>The reset-time extractor\<close>

lemma CheckRateLimitGetResetTime_nil: "CheckRateLimitGetResetTime None = Return 0"
  by (simp add: CheckRateLimitGetResetTime_def)

lemma CheckRateLimitGetResetTime_other_error:
  "\<not> Contains strErr ''Rate limit exceeded'' \<Longrightarrow>
     CheckRateLimitGetResetTime (Some strErr) = Return 0"
  by (simp add: CheckRateLimitGetResetTime_def)

lemma reset_time_of_wire_form:
  assumes sent: "CHR '':'' \<notin> set sentinel"
    and lo: "- (2 ^ 63) \<le> epoch" and hi: "epoch < 2 ^ 63"
    and has: "Contains msg ''Rate limit exceeded''"
  shows "CheckRateLimitGetResetTime
           (Some (sentinel @ ''::'' @ FormatInt epoch @ ''.'' @ msg)) = Return epoch"
proof -
  let ?ds = "FormatInt epoch"
  let ?rest = "?ds @ ''.'' @ msg"
  have nocolon: "CHR '':'' \<notin> set (?ds @ ''.'')"
    using FormatInt_chars [of "CHR '':''" epoch] by auto
  have nodot: "CHR ''.'' \<notin> set ?ds"
    using FormatInt_chars [of "CHR ''.''" epoch] by auto
  have c: "Contains (sentinel @ ''::'' @ ?rest) ''Rate limit exceeded''"
    using Contains_append_left [OF has, of "sentinel @ ''::'' @ ?ds @ ''.''"] by simp
  have s1: "Split (sentinel @ ''::'' @ ?rest) ''::'' = sentinel # Split ?rest ''::''"
    using Split_skip [OF sent, of "'':''" ?rest] by simp
  obtain t ts where s2: "Split ?rest ''::'' = (?ds @ ''.'' @ t) # ts"
    using Split_head_extends [OF nocolon, of msg "'':''"] by auto
  have s3: "Split (?ds @ ''.'' @ t) ''.'' = ?ds # Split t ''.''"
    using Split_skip [OF nodot, of "[]" t] by simp
  show ?thesis
    unfolding CheckRateLimitGetResetTime_def
    using c s1 s2 s3 Atoi_FormatInt [OF lo hi] by simp
qed

text \<open>
  Claim C7. An error that does not follow the rate-limit convention should give the reset
  time zero without failing. The nil error and every error without the words
  \<open>Rate limit exceeded\<close> do (the two lemmas above). An error that has the words but no
  \<open>::\<close> marker does not: the outer \<^verbatim>\<open>Split\<close> returns a single element and the
  index \<^verbatim>\<open>[1]\<close> panics.
\<close>

theorem CheckRateLimitGetResetTime_panics_without_marker:
  "CheckRateLimitGetResetTime (Some ''Rate limit exceeded'') = Panic"
  by (simp add: CheckRateLimitGetResetTime_def Contains_def Split.simps)

text \<open>
  Claim C8. An error in the wire form \<open>sentinel::epoch.msg\<close>, where the sentinel has no
  colon, the epoch is a Go \<^verbatim>\<open>int\<close> written by \<^verbatim>\<open>FormatInt\<close> and the message
  contains \<open>Rate limit exceeded\<close>, round-trips: the extractor returns that epoch, and
  \<^verbatim>\<open>GetGapTime\<close> of the epoch is the epoch minus the current unix time whenever that
  difference is an \<^verbatim>\<open>int64\<close> (it always is for times that are not negative).
\<close>

theorem rate_limit_round_trip:
  assumes "CHR '':'' \<notin> set sentinel"
    and "- (2 ^ 63) \<le> epoch" and "epoch < 2 ^ 63"
    and "Contains msg ''Rate limit exceeded''"
  shows "CheckRateLimitGetResetTime
           (Some (sentinel @ ''::'' @ FormatInt epoch @ ''.'' @ msg)) = Return epoch
         \<and> (- (2 ^ 63) \<le> epoch - now \<and> epoch - now < 2 ^ 63 \<longrightarrow>
              GetGapTime epoch now = epoch - now)
         \<and> (0 \<le> epoch \<and> 0 \<le> now \<and> now < 2 ^ 63 \<longrightarrow> GetGapTime epoch now = epoch - now)"
  using reset_time_of_wire_form [OF assms] assms(2,3)
  by (auto simp: GetGapTime_def wrap64_id)

theorem rate_limit_round_trip_witness:
  "CheckRateLimitGetResetTime (Some (fakeRateLimitError 1700000000)) = Return 1700000100
   \<and> GetGapTime 1700000100 1700000000 = 100"
  using rate_limit_round_trip [of "''unixtime''" 1700000100
      "'' Rate limit exceeded, code 403. Please increase the limit or wait until reset''"
      1700000000]
  by (simp add: fakeRateLimitError_def rateLimitErrorf_def wrap64_def Contains_def)


section \<open>Properties of the reconciler\<close>

lemma findFinalizer_None: "(findFinalizer fin fs = None) = (fin \<notin> set fs)"
  by (induction fs) auto

lemma deleteFinalizer_split:
  "deleteFinalizer (length pre) (pre @ f # post) =
     (if post = [] then pre else pre @ last post # butlast post)"
proof (cases post rule: rev_cases)
  case Nil
  then show ?thesis by (cases pre) (simp_all add: deleteFinalizer_def Let_def)
next
  case (snoc ps p)
  have "(pre @ f # ps @ [p]) ! (length pre + Suc (length ps)) = p"
    by (simp add: nth_append nth_Cons')
  then show ?thesis using snoc
    by (simp add: deleteFinalizer_def Let_def list_update_append nth_append)
qed

lemma patchJobFailed_calls:
  "snd (patchJobFailed r instance original message) =
     [CallStatusPatch (failedWith instance message) original]"
  by (simp add: patchJobFailed_def failedWith_def Let_def split: sum.splits)

lemma findFinalizer_first:
  "fin \<notin> set pre \<Longrightarrow> findFinalizer fin (pre @ fin # post) = Some (length pre)"
  by (induction pre) auto

lemma handleFinalizer_deletion:
  assumes "Finalizers job = pre @ finalizer # post" and "finalizer \<notin> set pre"
    and "DeletionTimestamp job \<noteq> None"
    and "job' = job\<lparr>Finalizers := (if post = [] then pre else pre @ last post # butlast post)\<rparr>"
  shows "handleFinalizer r finalizer job original =
     (case Patch r job' original of
        Inl err \<Rightarrow> ((False, Some err), job', [CallNotify job, CallPatch job' original])
      | Inr answer \<Rightarrow> ((True, None), answer, [CallNotify job, CallPatch job' original]))"
proof -
  have "findFinalizer finalizer (Finalizers job) = Some (length pre)"
    using assms(1,2) by (simp add: findFinalizer_first)
  moreover have "deleteFinalizer (length pre) (Finalizers job) = Finalizers job'"
    using assms(1,4) by (simp add: deleteFinalizer_split)
  moreover have "job\<lparr>Finalizers := Finalizers job'\<rparr> = job'"
    using assms(4) by simp
  ultimately show ?thesis using assms(3)
    by (simp add: handleFinalizer_def Let_def)
qed

text \<open>
  Claim C2, as the code has it. On a pass over a job with a deletion timestamp and the
  finalizer, \<^verbatim>\<open>Reconcile\<close> returns no error, notifies the scheduler exactly once (with
  the job as fetched) and sends exactly one patch, right after the notification. The
  patched finalizer list is the old one with the first occurrence of the marker
  overwritten by the last entry and the last slot dropped: the other finalizers are all
  kept, as a multiset, and keep their order when at most one entry follows the marker.
  When the patch succeeds the pass makes no further call.
\<close>

theorem deletion_pass:
  assumes "GetJob r req = Inr job" and "DeletionTimestamp job \<noteq> None"
    and "finalizer \<in> set (Finalizers job)"
  shows "\<exists>pre post job'.
           Finalizers job = pre @ finalizer # post \<and> finalizer \<notin> set pre
         \<and> job' = job\<lparr>Finalizers := (if post = [] then pre else pre @ last post # butlast post)\<rparr>
         \<and> fst (Reconcile r finalizer req) = None
         \<and> notified (snd (Reconcile r finalizer req)) = [job]
         \<and> patched (snd (Reconcile r finalizer req)) = [job']
         \<and> take 3 (snd (Reconcile r finalizer req))
             = [CallGetJob req, CallNotify job, CallPatch job' job]
         \<and> (\<forall>answer. Patch r job' job = Inr answer \<longrightarrow>
               snd (Reconcile r finalizer req)
                 = [CallGetJob req, CallNotify job, CallPatch job' job])
         \<and> mset (Finalizers job') = mset (Finalizers job) - {#finalizer#}
         \<and> (length post \<le> 1 \<longrightarrow> Finalizers job' = pre @ post)"
proof -
  from assms(3) obtain pre post where
    split: "Finalizers job = pre @ finalizer # post" "finalizer \<notin> set pre"
    by (auto dest: split_list_first)
  define job' where
    "job' = job\<lparr>Finalizers := (if post = [] then pre else pre @ last post # butlast post)\<rparr>"
  have hf: "handleFinalizer r finalizer job job =
     (case Patch r job' job of
        Inl err \<Rightarrow> ((False, Some err), job', [CallNotify job, CallPatch job' job])
      | Inr answer \<Rightarrow> ((True, None), answer, [CallNotify job, CallPatch job' job]))"
    by (rule handleFinalizer_deletion [OF split assms(2) job'_def])
  have run: "fst (Reconcile r finalizer req) = None"
    "notified (snd (Reconcile r finalizer req)) = [job]"
    "patched (snd (Reconcile r finalizer req)) = [job']"
    "take 3 (snd (Reconcile r finalizer req)) = [CallGetJob req, CallNotify job, CallPatch job' job]"
    "\<forall>answer. Patch r job' job = Inr answer \<longrightarrow>
        snd (Reconcile r finalizer req) = [CallGetJob req, CallNotify job, CallPatch job' job]"
    using assms(1) hf
    by (auto simp: Reconcile_def Let_def patchJobFailed_def split: sum.splits prod.splits)
  have ms: "mset (Finalizers job') = mset (Finalizers job) - {#finalizer#}"
  proof (cases post rule: rev_cases)
    case Nil
    then show ?thesis using split by (simp add: job'_def)
  next
    case (snoc ps p)
    then show ?thesis using split by (simp add: job'_def)
  qed
  have ord: "length post \<le> 1 \<longrightarrow> Finalizers job' = pre @ post"
    by (cases post rule: rev_cases) (auto simp: job'_def)
  from split job'_def run ms ord show ?thesis by blast
qed

lemmas fixture_defs = quietCluster_def conflictCluster_def noConfigCluster_def
  completedJob_def runningJob_def

lemmas reconcile_defs = Reconcile_def handleFinalizer_def patchJobFailed_def reconcileStatus_def
  getPipelineRun_def deleteFinalizer_def failedWith_def Let_def

theorem deletion_pass_witness:
  "GetJob (quietCluster completedJob) (''job'', ''ns'') = Inr completedJob
   \<and> DeletionTimestamp completedJob \<noteq> None
   \<and> ''fin'' \<in> set (Finalizers completedJob)
   \<and> fst (Reconcile (quietCluster completedJob) ''fin'' (''job'', ''ns'')) = None
   \<and> notified (snd (Reconcile (quietCluster completedJob) ''fin'' (''job'', ''ns''))) = [completedJob]"
proof -
  have h: "GetJob (quietCluster completedJob) (''job'', ''ns'') = Inr completedJob"
    "DeletionTimestamp completedJob \<noteq> None" "''fin'' \<in> set (Finalizers completedJob)"
    by (simp_all add: fixture_defs)
  from deletion_pass [OF h] h show ?thesis by blast
qed

text \<open>
  Claim C2 as stated fails: with the finalizers \<open>fin, a, b\<close> the patch carries \<open>b, a\<close>,
  while removing the marker in place would leave \<open>a, b\<close>.
\<close>

theorem deletion_pass_order_counterexample:
  "map Finalizers (patched (snd (Reconcile (quietCluster completedJob) ''fin'' (''job'', ''ns''))))
     = [[''b'', ''a'']]
   \<and> removeAll ''fin'' (Finalizers completedJob) = [''a'', ''b'']"
  by (simp add: fixture_defs reconcile_defs)

lemma handleFinalizer_no_statusPatch:
  "statusPatched (snd (snd (handleFinalizer r finalizer job original))) = []"
  by (simp add: handleFinalizer_def Let_def split: option.splits sum.splits)

text \<open>
  Claim C3, as the code has it. For a job whose status has a completion time, a pass in
  which the patch of the finalizers does not fail returns no error, makes the calls of
  the finalizer protocol and no others, and sends no status patch; a routine pass (the
  finalizer is there and the job is not being deleted) makes no call after fetching the
  job.
\<close>

theorem completed_job_is_skipped:
  assumes "GetJob r req = Inr job" and "CompletionTime (Status job) \<noteq> None"
    and "\<forall>instance err. Patch r instance job \<noteq> Inl err"
  shows "fst (Reconcile r finalizer req) = None
       \<and> snd (Reconcile r finalizer req)
           = CallGetJob req # snd (snd (handleFinalizer r finalizer job job))
       \<and> statusPatched (snd (Reconcile r finalizer req)) = []
       \<and> (finalizer \<in> set (Finalizers job) \<and> DeletionTimestamp job = None \<longrightarrow>
            snd (Reconcile r finalizer req) = [CallGetJob req])"
proof -
  have ok: "snd (fst (handleFinalizer r finalizer job job)) = None"
    using assms(3)
    by (auto simp: handleFinalizer_def Let_def split: option.splits sum.splits)
  have stay: "\<not> fst (fst (handleFinalizer r finalizer job job)) \<Longrightarrow>
      fst (snd (handleFinalizer r finalizer job job)) = job"
    using assms(3)
    by (auto simp: handleFinalizer_def Let_def split: option.splits sum.splits if_splits)
  have calls: "snd (Reconcile r finalizer req)
      = CallGetJob req # snd (snd (handleFinalizer r finalizer job job))"
    and res: "fst (Reconcile r finalizer req) = None"
    using assms(1,2) ok stay
    by (auto simp: Reconcile_def Let_def split: prod.splits option.splits)
  have routine: "finalizer \<in> set (Finalizers job) \<and> DeletionTimestamp job = None \<longrightarrow>
      snd (snd (handleFinalizer r finalizer job job)) = []"
    by (auto simp: handleFinalizer_def findFinalizer_None split: option.splits)
  from calls res routine show ?thesis
    by (simp add: handleFinalizer_no_statusPatch)
qed

theorem completed_job_is_skipped_witness:
  "snd (Reconcile (quietCluster (completedJob\<lparr>DeletionTimestamp := None\<rparr>)) ''fin'' (''job'', ''ns''))
     = [CallGetJob (''job'', ''ns'')]
   \<and> statusPatched
        (snd (Reconcile (quietCluster (completedJob\<lparr>DeletionTimestamp := None\<rparr>)) ''fin''
               (''job'', ''ns''))) = []"
proof -
  let ?job = "completedJob\<lparr>DeletionTimestamp := None\<rparr>"
  have h: "GetJob (quietCluster ?job) (''job'', ''ns'') = Inr ?job"
    "CompletionTime (Status ?job) \<noteq> None"
    "\<forall>instance err. Patch (quietCluster ?job) instance ?job \<noteq> Inl err"
    by (simp_all add: fixture_defs)
  have routine: "''fin'' \<in> set (Finalizers ?job) \<and> DeletionTimestamp ?job = None"
    by (simp add: fixture_defs)
  from completed_job_is_skipped [OF h, of "''fin''"] routine show ?thesis by blast
qed

text \<open>
  Claim C3 as stated fails on an error path: when the patch that removes the finalizer of
  a completed job fails, \<^verbatim>\<open>patchJobFailed\<close> sends a status patch that turns the
  job's state to Failed.
\<close>

theorem completed_job_status_counterexample:
  "CompletionTime (Status completedJob) = Some 5
   \<and> map Status (statusPatched (snd (Reconcile (conflictCluster completedJob) ''fin'' (''job'', ''ns''))))
       = [\<lparr>State = IntegrationJobStateFailed, Message = ''conflict'', CompletionTime = Some 5\<rparr>]"
  by (simp add: fixture_defs reconcile_defs)

lemma handleFinalizer_routine:
  "finalizer \<in> set (Finalizers job) \<Longrightarrow> DeletionTimestamp job = None \<Longrightarrow>
     handleFinalizer r finalizer job original = ((False, None), job, [])"
  by (auto simp: handleFinalizer_def findFinalizer_None split: option.splits)

lemma Reconcile_routine:
  assumes "GetJob r req = Inr job" and "finalizer \<in> set (Finalizers job)"
    and "DeletionTimestamp job = None" and "CompletionTime (Status job) = None"
  shows "Reconcile r finalizer req =
     (fst (reconcileStatus r job job),
      CallGetJob req # snd (snd (reconcileStatus r job job))
        @ [CallNotify (fst (snd (reconcileStatus r job job)))])"
  using assms
  by (simp add: Reconcile_def handleFinalizer_routine Let_def split: prod.splits)

lemma statusPatched_patchJobFailed:
  "statusPatched (snd (patchJobFailed r instance original message))
     = [failedWith instance message]"
  by (simp add: patchJobFailed_calls)

lemma notified_patchJobFailed:
  "notified (snd (patchJobFailed r instance original message)) = []"
  by (simp add: patchJobFailed_calls)

lemma statusPatched_append: "statusPatched (xs @ ys) = statusPatched xs @ statusPatched ys"
  by (induction xs rule: statusPatched.induct) auto

lemma notified_append: "notified (xs @ ys) = notified xs @ notified ys"
  by (induction xs rule: notified.induct) auto

lemma notified_reconcileStatus: "notified (snd (snd (reconcileStatus r job original))) = []"
  by (simp add: reconcileStatus_def Let_def case_prod_beta notified_patchJobFailed
      split: sum.splits option.splits)

text \<open>
  Claim C6, as the code has it. On a pass that reaches status reconciliation (the
  finalizer is there, the job is neither being deleted nor completed): an error fetching
  the configuration, an error other than not-found fetching the PipelineRun, or an error
  of \<^verbatim>\<open>ReflectStatus\<close> makes the pass send one status patch with the state Failed and
  the error's text as message, and return no error; a not-found answer for the
  PipelineRun is no failure (the run is nil); otherwise the returned error is exactly the
  failure, if any, of the final status patch. The scheduler is notified once on each of
  these paths.
\<close>

theorem reconcile_error_paths:
  fixes r :: "('cfg, 'run) Cluster"
  assumes "GetJob r req = Inr job" and "finalizer \<in> set (Finalizers job)"
    and "DeletionTimestamp job = None" and "CompletionTime (Status job) = None"
  defines "R \<equiv> Reconcile r finalizer req"
    and "configKey \<equiv> (ConfigRefName job, Namespace job)"
    and "runKey \<equiv> (pipelinemanagerName r job, Namespace job)"
    and "defaulted \<equiv> job\<lparr>Status := SetDefaults r (Status job)\<rparr>"
  shows "(\<forall>err. GetConfig r configKey = Inl err \<longrightarrow>
            fst R = None \<and> statusPatched (snd R) = [failedWith job (Error err)])
       \<and> (\<forall>config err. GetConfig r configKey = Inr config
              \<and> GetPipelineRun r runKey = Inl err \<and> \<not> IsNotFound err \<longrightarrow>
            fst R = None \<and> statusPatched (snd R) = [failedWith job (Error err)])
       \<and> (\<forall>err. GetPipelineRun r runKey = Inl err \<and> IsNotFound err \<longrightarrow>
            getPipelineRun r runKey = Inr None)
       \<and> (\<forall>config pr err job2. GetConfig r configKey = Inr config
              \<and> getPipelineRun r runKey = Inr pr
              \<and> ReflectStatus r pr defaulted config = (Some err, job2) \<longrightarrow>
            fst R = None \<and> statusPatched (snd R) = [failedWith job2 (Error err)])
       \<and> (\<forall>config pr job2. GetConfig r configKey = Inr config
              \<and> getPipelineRun r runKey = Inr pr
              \<and> ReflectStatus r pr defaulted config = (None, job2) \<longrightarrow>
            fst R = (case StatusPatch r job2 job of Inl err \<Rightarrow> Some err | Inr answer \<Rightarrow> None)
            \<and> statusPatched (snd R) = [job2])
       \<and> length (notified (snd R)) = 1"
proof -
  have R: "R = (fst (reconcileStatus r job job),
      CallGetJob req # snd (snd (reconcileStatus r job job))
        @ [CallNotify (fst (snd (reconcileStatus r job job)))])"
    unfolding R_def by (rule Reconcile_routine [OF assms(1-4)])
  have c1: "\<forall>err. GetConfig r configKey = Inl err \<longrightarrow>
            fst R = None \<and> statusPatched (snd R) = [failedWith job (Error err)]"
    by (auto simp: R reconcileStatus_def configKey_def Let_def statusPatched_append
        case_prod_beta statusPatched_patchJobFailed)
  have c2: "\<forall>config err. GetConfig r configKey = Inr config
              \<and> GetPipelineRun r runKey = Inl err \<and> \<not> IsNotFound err \<longrightarrow>
            fst R = None \<and> statusPatched (snd R) = [failedWith job (Error err)]"
    by (auto simp: R reconcileStatus_def getPipelineRun_def configKey_def runKey_def Let_def
        case_prod_beta statusPatched_append statusPatched_patchJobFailed)
  have c3: "\<forall>err. GetPipelineRun r runKey = Inl err \<and> IsNotFound err \<longrightarrow>
            getPipelineRun r runKey = Inr None"
    by (simp add: getPipelineRun_def)
  have c4: "\<forall>config pr err job2. GetConfig r configKey = Inr config
              \<and> getPipelineRun r runKey = Inr pr
              \<and> ReflectStatus r pr defaulted config = (Some err, job2) \<longrightarrow>
            fst R = None \<and> statusPatched (snd R) = [failedWith job2 (Error err)]"
    by (auto simp: R reconcileStatus_def configKey_def runKey_def defaulted_def Let_def
        case_prod_beta statusPatched_append statusPatched_patchJobFailed)
  have c5: "\<forall>config pr job2. GetConfig r configKey = Inr config
              \<and> getPipelineRun r runKey = Inr pr
              \<and> ReflectStatus r pr defaulted config = (None, job2) \<longrightarrow>
            fst R = (case StatusPatch r job2 job of Inl err \<Rightarrow> Some err | Inr answer \<Rightarrow> None)
            \<and> statusPatched (snd R) = [job2]"
    by (auto simp: R reconcileStatus_def configKey_def runKey_def defaulted_def Let_def
        case_prod_beta split: sum.splits)
  have c6: "length (notified (snd R)) = 1"
    by (simp add: R notified_append notified_reconcileStatus)
  from c1 c2 c3 c4 c5 c6 show ?thesis by blast
qed

theorem reconcile_error_paths_witness:
  "fst (Reconcile (noConfigCluster runningJob) ''fin'' (''job'', ''ns'')) = None
   \<and> statusPatched (snd (Reconcile (noConfigCluster runningJob) ''fin'' (''job'', ''ns'')))
       = [failedWith runningJob ''integrationconfigs not found'']"
proof -
  have h: "GetJob (noConfigCluster runningJob) (''job'', ''ns'') = Inr runningJob"
    "''fin'' \<in> set (Finalizers runningJob)" "DeletionTimestamp runningJob = None"
    "CompletionTime (Status runningJob) = None"
    by (simp_all add: fixture_defs)
  have e: "GetConfig (noConfigCluster runningJob) (ConfigRefName runningJob, Namespace runningJob)
      = Inl (ApiError True ''integrationconfigs not found'')"
    by (simp add: fixture_defs)
  from reconcile_error_paths [OF h] e show ?thesis by fastforce
qed

text \<open>
  Claim C6 as stated fails for one error: a not-found error while fetching the
  PipelineRun does not lead to a Failed status.
\<close>

theorem run_not_found_counterexample:
  "GetPipelineRun (quietCluster runningJob) (''job'', ''ns'')
     = Inl (ApiError True ''pipelineruns not found'')
   \<and> fst (Reconcile (quietCluster runningJob) ''fin'' (''job'', ''ns'')) = None
   \<and> map State (map Status
        (statusPatched (snd (Reconcile (quietCluster runningJob) ''fin'' (''job'', ''ns'')))))
       = [IntegrationJobStateOther ''running'']"
  by (simp add: fixture_defs reconcile_defs)


section \<open>Properties of the approval plugin\<close>

subsection \<open>Authorization and the token guard\<close>

lemmas git_fixture_defs = exampleHandler_def alice_def bob_def carol_def exampleConfig_def
  labelNamed_def examplePullRequest_def exampleRepos_def labelEvent_def commentOn_def

lemmas fake_defs = fakeClient_def fake_CanUserWriteToRepo_def fake_RegisterComment_def
  fake_ListComments_def fake_ListLabels_def fake_SetLabel_def fake_DeleteLabel_def
  fake_Client_DeleteLabel_def lookupRepo_def storeRepo_def labelsOf_def cutLabel_def

lemmas act_defs = ret_def panic_def andThen_def

text \<open>
  Claim C9. When the sender and the author have the same id, \<^verbatim>\<open>authorize\<close> returns the
  Unauthorized error for the sender, whatever the client and so whatever the sender's
  write privilege, and calls nothing; when the ids differ and the client answers that
  the sender can write, \<^verbatim>\<open>authorize\<close> returns no error.
\<close>

theorem authorize_rule:
  "(User.ID sender = User.ID author \<longrightarrow>
      authorize cfg sender author gitCli s
        = (Return (Some (UnauthorizedError (User.Name sender) (Repository cfg))), s))
   \<and> (User.ID sender \<noteq> User.ID author
        \<and> CanUserWriteToRepo gitCli sender s = (Return (Inr True), s') \<longrightarrow>
      authorize cfg sender author gitCli s = (Return None, s'))"
  by (simp add: authorize_def act_defs)

theorem authorize_rule_witness:
  "authorize exampleConfig alice alice (fakeClient 0 exampleConfig) (exampleRepos [])
     = (Return (Some (UnauthorizedError ''alice'' ''tmax/cicd'')), exampleRepos [])
   \<and> authorize exampleConfig bob alice (fakeClient 0 exampleConfig) (exampleRepos [])
     = (Return None, exampleRepos [])"
proof -
  have w: "CanUserWriteToRepo (fakeClient 0 exampleConfig) bob (exampleRepos [])
      = (Return (Inr True), exampleRepos [])"
    by (simp add: fake_defs git_fixture_defs)
  have ids: "User.ID alice = User.ID alice" "User.ID bob \<noteq> User.ID alice"
    by (simp_all add: git_fixture_defs)
  have names: "User.Name alice = ''alice''" "Repository exampleConfig = ''tmax/cicd''"
    by (simp_all add: git_fixture_defs)
  from authorize_rule [of alice alice exampleConfig "fakeClient 0 exampleConfig" "exampleRepos []"]
    authorize_rule [of bob alice exampleConfig "fakeClient 0 exampleConfig" "exampleRepos []"
      "exampleRepos []"]
    w ids names show ?thesis by simp
qed

text \<open>
  Claim C10, as the code has it. With a nil git token \<^verbatim>\<open>Handle\<close> returns nil for
  every webhook, and \<^verbatim>\<open>HandleChatOps\<close> returns nil for every webhook that carries an
  issue comment; neither builds a client, and the state of the remote side (with it the
  journal of a traced client) is left as it was.
\<close>

theorem token_nil_is_skipped:
  assumes "Token ic = None"
  shows "Handle h wh ic s = (Return None, s)
       \<and> (Webhook.IssueComment wh \<noteq> None \<longrightarrow> HandleChatOps h command wh ic s = (Return None, s))"
  using assms
  by (auto simp: Handle_def HandleChatOps_def act_defs split: option.splits)

theorem token_nil_is_skipped_witness:
  "Handle (exampleHandler (fakeClient 0)) (labelEvent bob []) (exampleConfig\<lparr>Token := None\<rparr>) (exampleRepos [])
     = (Return None, exampleRepos [])
   \<and> HandleChatOps (exampleHandler (fakeClient 0)) \<lparr>Type = ''approve'', Args = []\<rparr>
        ((labelEvent bob [])\<lparr>Webhook.IssueComment := Some (commentOn (PullRequestReviewStateOther []) ''/approve'' 7)\<rparr>)
        (exampleConfig\<lparr>Token := None\<rparr>) (exampleRepos [])
     = (Return None, exampleRepos [])"
proof -
  have t: "Token (exampleConfig\<lparr>Token := None\<rparr>) = None" by simp
  show ?thesis
    using token_nil_is_skipped [OF t, of "exampleHandler (fakeClient 0)" "labelEvent bob []" "exampleRepos []"]
      token_nil_is_skipped [OF t, of "exampleHandler (fakeClient 0)"
        "(labelEvent bob [])\<lparr>Webhook.IssueComment := Some (commentOn (PullRequestReviewStateOther []) ''/approve'' 7)\<rparr>"
        "exampleRepos []" "\<lparr>Type = ''approve'', Args = []\<rparr>"]
    by simp
qed

text \<open>
  Claim C10 as stated fails for \<^verbatim>\<open>HandleChatOps\<close> on a webhook without an issue
  comment: the comment is dereferenced before the token is looked at, and the call
  panics.
\<close>

theorem HandleChatOps_without_comment_counterexample:
  "Token (exampleConfig\<lparr>Token := None\<rparr>) = None
   \<and> HandleChatOps (exampleHandler (fakeClient 0)) \<lparr>Type = ''approve'', Args = []\<rparr> (labelEvent bob [])
        (exampleConfig\<lparr>Token := None\<rparr>) (exampleRepos [])
     = (Panic, exampleRepos [])"
  by (simp add: HandleChatOps_def labelEvent_def act_defs)

subsection \<open>The label calls of the fake client\<close>

lemma labelIndex_None: "(labelIndex name ls = None) = (\<not> hasLabel name ls)"
  by (induction ls) auto

lemma hasLabel_set: "hasLabel name ls = (\<lparr>IssueLabel.Name = name\<rparr> \<in> set ls)"
  by (induction ls) auto

lemma cutLabel_absent: "\<not> hasLabel name ls \<Longrightarrow> cutLabel name ls = ls"
  using labelIndex_None [of name ls] by (simp add: cutLabel_def)

lemma labelsOf_Some:
  assumes "labelsOf repos repoName pid = Some labels"
  obtains m repo prs pr where "repos = Some m" and "m repoName = Some repo"
    and "PullRequests repo = Some prs" and "prs pid = Some pr" and "Labels pr = labels"
  using assms
  by (auto simp: labelsOf_def lookupRepo_def split: option.splits sum.splits)

lemma fake_DeleteLabel_result:
  assumes "labelsOf repos repoName pid = Some labels"
  shows "fst (fake_DeleteLabel repoName pid name repos) = Return None"
    and "labelsOf (snd (fake_DeleteLabel repoName pid name repos)) repoName pid
           = Some (cutLabel name labels)"
proof -
  from assms obtain m repo prs pr where h: "repos = Some m" "m repoName = Some repo"
    "PullRequests repo = Some prs" "prs pid = Some pr" "Labels pr = labels"
    by (rule labelsOf_Some)
  then show "fst (fake_DeleteLabel repoName pid name repos) = Return None"
    and "labelsOf (snd (fake_DeleteLabel repoName pid name repos)) repoName pid
           = Some (cutLabel name labels)"
    by (simp_all add: fake_DeleteLabel_def lookupRepo_def storeRepo_def labelsOf_def Let_def)
qed

lemma fake_DeleteLabel_absent:
  assumes "labelsOf repos repoName pid = Some labels" and "\<not> hasLabel name labels"
  shows "fake_DeleteLabel repoName pid name repos = (Return None, repos)"
proof -
  from assms(1) obtain m repo prs pr where h: "repos = Some m" "m repoName = Some repo"
    "PullRequests repo = Some prs" "prs pid = Some pr" "Labels pr = labels"
    by (rule labelsOf_Some)
  have pr: "pr\<lparr>Labels := cutLabel name (Labels pr)\<rparr> = pr"
    using assms(2) h(5) by (simp add: cutLabel_absent)
  have prs: "prs(pid \<mapsto> pr) = prs" using h(4) by (rule map_upd_triv)
  have repo: "repo\<lparr>PullRequests := Some prs\<rparr> = repo" using h(3) by simp
  have m: "m(repoName \<mapsto> repo) = m" using h(2) by (rule map_upd_triv)
  show ?thesis
    using h(1-4) by (simp add: fake_DeleteLabel_def lookupRepo_def storeRepo_def Let_def pr prs repo m)
qed

lemma fake_SetLabel_result:
  assumes "labelsOf repos (Repository cfg) pid = Some labels"
  shows "fst (fake_SetLabel cfg t pid name repos) = Return None"
    and "labelsOf (snd (fake_SetLabel cfg t pid name repos)) (Repository cfg) pid
           = Some (labels @ [\<lparr>IssueLabel.Name = name\<rparr>])"
proof -
  from assms obtain m repo prs pr where h: "repos = Some m" "m (Repository cfg) = Some repo"
    "PullRequests repo = Some prs" "prs pid = Some pr" "Labels pr = labels"
    by (rule labelsOf_Some)
  then show "fst (fake_SetLabel cfg t pid name repos) = Return None"
    and "labelsOf (snd (fake_SetLabel cfg t pid name repos)) (Repository cfg) pid
           = Some (labels @ [\<lparr>IssueLabel.Name = name\<rparr>])"
    by (simp_all add: fake_SetLabel_def lookupRepo_def storeRepo_def labelsOf_def Let_def)
qed

text \<open>
  Claim C4, as the code has it. For a store that holds the pull request: deleting a
  label that is absent returns no error and leaves the store as it was (deleting never
  returns an error there); setting a label returns no error and appends the label to the
  list, so that the list is without duplicates afterwards exactly when it was before and
  the label was absent.
\<close>

theorem fake_label_operations:
  assumes "labelsOf repos (Repository cfg) pid = Some labels"
  shows "(\<not> hasLabel name labels \<longrightarrow>
            fake_Client_DeleteLabel cfg t pid name repos = (Return None, repos))
       \<and> fst (fake_Client_DeleteLabel cfg t pid name repos) = Return None
       \<and> fst (fake_SetLabel cfg t pid name repos) = Return None
       \<and> labelsOf (snd (fake_SetLabel cfg t pid name repos)) (Repository cfg) pid
           = Some (labels @ [\<lparr>IssueLabel.Name = name\<rparr>])
       \<and> (distinct (labels @ [\<lparr>IssueLabel.Name = name\<rparr>])
            = (distinct labels \<and> \<not> hasLabel name labels))"
  using fake_DeleteLabel_absent [OF assms] fake_DeleteLabel_result(1) [OF assms]
    fake_SetLabel_result [OF assms]
  by (auto simp: fake_Client_DeleteLabel_def hasLabel_set)

theorem fake_label_operations_witness:
  "fake_Client_DeleteLabel exampleConfig IssueTypePullRequest 42 ''approved''
       (exampleRepos [labelNamed ''lgtm''])
     = (Return None, exampleRepos [labelNamed ''lgtm''])
   \<and> labelsOf (snd (fake_SetLabel exampleConfig IssueTypePullRequest 42 ''approved''
                      (exampleRepos [labelNamed ''lgtm''])))
        ''tmax/cicd'' 42
     = Some [labelNamed ''lgtm'', labelNamed ''approved'']"
proof -
  have h: "labelsOf (exampleRepos [labelNamed ''lgtm'']) (Repository exampleConfig) 42
      = Some [labelNamed ''lgtm'']"
    by (simp add: labelsOf_def lookupRepo_def git_fixture_defs)
  have a: "\<not> hasLabel ''approved'' [labelNamed ''lgtm'']"
    by (simp add: labelNamed_def)
  from fake_label_operations [OF h, of "''approved''" IssueTypePullRequest] a
  show ?thesis by (simp add: exampleConfig_def labelNamed_def)
qed

text \<open>
  Claim C4 as stated fails for a label that is already set: \<^verbatim>\<open>SetLabel\<close> appends a
  second copy.
\<close>

theorem fake_SetLabel_duplicates_counterexample:
  "hasLabel ''approved'' [labelNamed ''approved'']
   \<and> labelsOf (snd (fake_SetLabel exampleConfig IssueTypePullRequest 42 ''approved''
                      (exampleRepos [labelNamed ''approved''])))
        ''tmax/cicd'' 42
     = Some [labelNamed ''approved'', labelNamed ''approved'']"
  by (simp add: fake_defs git_fixture_defs)

subsection \<open>The check algorithm\<close>








subsection \<open>The sort of the check command\<close>













subsection \<open>The check command\<close>


lemma extract_approve:
  "extractCommandsOfSpec ''/approve'' = [\<lparr>Type = ''approve'', Args = []\<rparr>]"
  by (simp add: extractCommandsOfSpec_def extractLine_def Fields_def newline_def Split.simps)

lemma extract_hello: "extractCommandsOfSpec ''hello'' = []"
  by (simp add: extractCommandsOfSpec_def extractLine_def Fields_def newline_def Split.simps)

lemma extract_empty: "extractCommandsOfSpec [] = []"
  by (simp add: extractCommandsOfSpec_def extractLine_def Fields_def newline_def Split.simps)

lemmas check_defs = handleApproveCheckCommand_def syncApproval_def handleApproveCommand_def
  handleApproveCancelCommand_def labelDoesNotExist_def ErrorText_def modify_def
  insertionSort_def newerFirst_def Before_def approvedLabel_def commentsOf_def
  exampleReposWith_def commentWithoutTime_def fake_writeComments_def



text \<open>
  The sort is in place: on the fake client, whose listed slice is the store's own, the
  stored comments end in the scanned order.
\<close>

lemma check_command_sorts_the_store:
  "map_option (map (\<lambda>c. Body (Comment c)))
     (commentsOf (snd (handleApproveCheckCommand (exampleHandler (fakeClient 0))
          (commentOn (PullRequestReviewStateOther []) ''/approve check'' 4)
          (fakeClient 0 exampleConfig)
          (exampleReposWith []
             [commentOn (PullRequestReviewStateOther []) ''hello'' 1,
              commentOn (PullRequestReviewStateOther []) ''/approve'' 2,
              commentOn PullRequestReviewStateUnapproved [] 3])))
        ''tmax/cicd'' 42)
     = Some [[], ''/approve'', ''hello'']"
  by (simp add: check_defs fake_defs git_fixture_defs act_defs extract_approve extract_hello)

subsection \<open>The label event of an unauthorized sender\<close>

lemma authorize_traced_calls:
  "snd (snd (authorize cfg sender author (traced cli) (s, calls))) = calls
   \<or> snd (snd (authorize cfg sender author (traced cli) (s, calls)))
       = calls @ [GitCanUserWriteToRepo sender]"
  by (auto simp: authorize_def traced_def journal_def act_defs
      split: prod.splits go.splits sum.splits)

lemma handleLabelEvent_unauthorized:
  assumes "Webhook.PullRequest wh = Some pr" and "hasLabel approvedLabel (LabelChanged pr)"
    and "authorize ic (Sender wh) (PullRequest.Author pr) gitCli s
           = (Return (Some (UnauthorizedError user repo)), s1)"
  shows "handleLabelEvent h wh ic gitCli s =
     andThen
       (if hasLabel approvedLabel (Labels pr)
        then andThen (DeleteLabel gitCli IssueTypePullRequest (PullRequest.ID pr) approvedLabel)
               (\<lambda>err. if err \<noteq> None \<and> \<not> labelDoesNotExist h (the err)
                       then ret err else ret None)
        else andThen (SetLabel gitCli IssueTypePullRequest (PullRequest.ID pr) approvedLabel)
               (\<lambda>err. if err \<noteq> None then ret err else ret None))
       (\<lambda>err.
          if err \<noteq> None then ret err
          else andThen (RegisterComment gitCli IssueTypePullRequest (PullRequest.ID pr)
                          (generateUserUnauthorizedComment user))
                 (\<lambda>err. if err \<noteq> None then ret err else ret None)) s1"
  using assms by (simp add: handleLabelEvent_def Let_def andThen_def)

lemma revert_then_comment_traced:
  fixes cli :: "'s Client" and h :: "('s \<times> gitCall list) Handler"
  assumes "Webhook.PullRequest wh = Some pr" and "hasLabel approvedLabel (LabelChanged pr)"
    and "authorize ic (Sender wh) (PullRequest.Author pr) (traced cli) (s, calls)
           = (Return (Some (UnauthorizedError user repo)), (s1, calls1))"
  defines "revert \<equiv>
      (if hasLabel approvedLabel (Labels pr)
       then GitDeleteLabel IssueTypePullRequest (PullRequest.ID pr) approvedLabel
       else GitSetLabel IssueTypePullRequest (PullRequest.ID pr) approvedLabel)"
    and "comment \<equiv> GitRegisterComment IssueTypePullRequest (PullRequest.ID pr)
                      (generateUserUnauthorizedComment user)"
    and "result \<equiv> handleLabelEvent h wh ic (traced cli) (s, calls)"
  shows "calls1 = calls \<or> calls1 = calls @ [GitCanUserWriteToRepo (Sender wh)]"
    and "snd (snd result) = calls1 @ [revert] \<or> snd (snd result) = calls1 @ [revert, comment]"
    and "\<forall>s2. (if hasLabel approvedLabel (Labels pr)
               then DeleteLabel cli IssueTypePullRequest (PullRequest.ID pr) approvedLabel s1
               else SetLabel cli IssueTypePullRequest (PullRequest.ID pr) approvedLabel s1)
              = (Return None, s2) \<longrightarrow>
            snd (snd result) = calls1 @ [revert, comment]
            \<and> fst result = fst (RegisterComment cli IssueTypePullRequest (PullRequest.ID pr)
                                  (generateUserUnauthorizedComment user) s2)"
proof -
  show "calls1 = calls \<or> calls1 = calls @ [GitCanUserWriteToRepo (Sender wh)]"
    using authorize_traced_calls [of ic "Sender wh" "PullRequest.Author pr" cli s calls] assms(3)
    by simp
  have r: "result =
     andThen
       (if hasLabel approvedLabel (Labels pr)
        then andThen (DeleteLabel (traced cli) IssueTypePullRequest (PullRequest.ID pr) approvedLabel)
               (\<lambda>err. if err \<noteq> None \<and> \<not> labelDoesNotExist h (the err)
                       then ret err else ret None)
        else andThen (SetLabel (traced cli) IssueTypePullRequest (PullRequest.ID pr) approvedLabel)
               (\<lambda>err. if err \<noteq> None then ret err else ret None))
       (\<lambda>err.
          if err \<noteq> None then ret err
          else andThen (RegisterComment (traced cli) IssueTypePullRequest (PullRequest.ID pr)
                          (generateUserUnauthorizedComment user))
                 (\<lambda>err. if err \<noteq> None then ret err else ret None)) (s1, calls1)"
    unfolding result_def by (rule handleLabelEvent_unauthorized [OF assms(1-3)])
  show "snd (snd result) = calls1 @ [revert] \<or> snd (snd result) = calls1 @ [revert, comment]"
    unfolding r revert_def comment_def
    by (auto simp: traced_def journal_def act_defs split: prod.splits go.splits option.splits)
  show "\<forall>s2. (if hasLabel approvedLabel (Labels pr)
               then DeleteLabel cli IssueTypePullRequest (PullRequest.ID pr) approvedLabel s1
               else SetLabel cli IssueTypePullRequest (PullRequest.ID pr) approvedLabel s1)
              = (Return None, s2) \<longrightarrow>
            snd (snd result) = calls1 @ [revert, comment]
            \<and> fst result = fst (RegisterComment cli IssueTypePullRequest (PullRequest.ID pr)
                                  (generateUserUnauthorizedComment user) s2)"
    unfolding r revert_def comment_def
    by (auto simp: traced_def journal_def act_defs split: prod.splits go.splits option.splits)
qed

lemma labelsOf_fake_RegisterComment:
  "labelsOf (snd (fake_RegisterComment now cfg t issueNo body repos)) repoName pid
     = labelsOf repos repoName pid"
  by (auto simp: fake_RegisterComment_def labelsOf_def lookupRepo_def storeRepo_def Let_def
      split: option.splits sum.splits if_splits)

lemma fake_authorize_state:
  "snd (authorize cfg sender author (fakeClient now cfg') repos) = repos"
  by (auto simp: authorize_def fakeClient_def fake_CanUserWriteToRepo_def act_defs
      split: option.splits sum.splits)

lemma cut_at_index:
  "labelIndex name ls = Some idx \<Longrightarrow>
     take idx ls @ drop (Suc idx) ls = remove1 \<lparr>IssueLabel.Name = name\<rparr> ls
     \<and> idx < length ls"
proof (induction ls arbitrary: idx)
  case Nil
  then show ?case by simp
next
  case (Cons l ls)
  show ?case
  proof (cases "IssueLabel.Name l = name")
    case True
    then have "l = \<lparr>IssueLabel.Name = name\<rparr>" by (cases l) simp
    with Cons.prems True show ?thesis by simp
  next
    case False
    with Cons.prems obtain i where i: "labelIndex name ls = Some i" "idx = Suc i" by auto
    from False have "l \<noteq> \<lparr>IssueLabel.Name = name\<rparr>" by auto
    with Cons.IH [OF i(1)] i(2) show ?thesis by simp
  qed
qed

lemma cutLabel_remove1: "cutLabel name ls = remove1 \<lparr>IssueLabel.Name = name\<rparr> ls"
proof (cases "labelIndex name ls")
  case None
  then have "\<lparr>IssueLabel.Name = name\<rparr> \<notin> set ls"
    by (simp add: labelIndex_None hasLabel_set)
  with None show ?thesis by (simp add: cutLabel_def remove1_idem)
next
  case (Some idx)
  from cut_at_index [OF Some] show ?thesis
    using Some by (auto simp: cutLabel_def)
qed

lemma cutLabel_distinct: "distinct ls \<Longrightarrow> \<not> hasLabel name (cutLabel name ls)"
  by (simp add: cutLabel_remove1 hasLabel_set)

lemma revert_on_fake:
  assumes "Webhook.PullRequest wh = Some pr" and "hasLabel approvedLabel (LabelChanged pr)"
    and "fst (authorize ic (Sender wh) (PullRequest.Author pr) (fakeClient now ic) repos)
           = Return (Some (UnauthorizedError user repo))"
    and "labelsOf repos (Repository ic) (PullRequest.ID pr) = Some labels"
  shows "labelsOf (snd (handleLabelEvent h wh ic (fakeClient now ic) repos))
           (Repository ic) (PullRequest.ID pr)
         = Some (if hasLabel approvedLabel (Labels pr) then cutLabel approvedLabel labels
                 else labels @ [\<lparr>IssueLabel.Name = approvedLabel\<rparr>])"
proof -
  have auth: "authorize ic (Sender wh) (PullRequest.Author pr) (fakeClient now ic) repos
      = (Return (Some (UnauthorizedError user repo)), repos)"
    using assms(3) fake_authorize_state [of ic "Sender wh" "PullRequest.Author pr" now ic repos]
    by (simp add: prod_eq_iff)
  note step = handleLabelEvent_unauthorized [OF assms(1,2) auth, of h]
  show ?thesis
  proof (cases "hasLabel approvedLabel (Labels pr)")
    case True
    obtain repos1 where d: "fake_DeleteLabel (Repository ic) (PullRequest.ID pr) approvedLabel repos
        = (Return None, repos1)"
      using fake_DeleteLabel_result(1) [OF assms(4), of approvedLabel]
      by (cases "fake_DeleteLabel (Repository ic) (PullRequest.ID pr) approvedLabel repos") simp
    then have l: "labelsOf repos1 (Repository ic) (PullRequest.ID pr)
        = Some (cutLabel approvedLabel labels)"
      using fake_DeleteLabel_result(2) [OF assms(4), of approvedLabel] by simp
    show ?thesis
      using True d l
        labelsOf_fake_RegisterComment [of now ic IssueTypePullRequest "PullRequest.ID pr"
          "generateUserUnauthorizedComment user" repos1 "Repository ic" "PullRequest.ID pr"]
      by (subst step)
        (auto simp: fakeClient_def fake_Client_DeleteLabel_def act_defs
          split: prod.splits go.splits)
  next
    case False
    obtain repos1 where d: "fake_SetLabel ic IssueTypePullRequest (PullRequest.ID pr) approvedLabel repos
        = (Return None, repos1)"
      using fake_SetLabel_result(1) [OF assms(4), of IssueTypePullRequest approvedLabel]
      by (cases "fake_SetLabel ic IssueTypePullRequest (PullRequest.ID pr) approvedLabel repos") simp
    then have l: "labelsOf repos1 (Repository ic) (PullRequest.ID pr)
        = Some (labels @ [\<lparr>IssueLabel.Name = approvedLabel\<rparr>])"
      using fake_SetLabel_result(2) [OF assms(4), of IssueTypePullRequest approvedLabel] by simp
    show ?thesis
      using False d l
        labelsOf_fake_RegisterComment [of now ic IssueTypePullRequest "PullRequest.ID pr"
          "generateUserUnauthorizedComment user" repos1 "Repository ic" "PullRequest.ID pr"]
      by (subst step) (auto simp: fakeClient_def act_defs split: prod.splits go.splits)
  qed
qed

text \<open>
  Claim C5. On a label event that changed the label \<open>approved\<close>, when \<^verbatim>\<open>authorize\<close>
  returns the Unauthorized error: authorizing called nothing but, at most, the
  permission query; the handler then calls the revert (delete when the event shows the
  label, set when it does not) and after it, unless the revert failed, the rejection
  comment, and nothing else; when the revert returns no error the comment is posted and
  its result returned. On the fake client the labels of the pull request end as the
  revert leaves them, so that a store that agreed with the event and held no duplicates
  has the label exactly when the event did not.
\<close>

theorem unauthorized_label_change_is_reverted:
  fixes cli :: "'s Client" and h :: "('s \<times> gitCall list) Handler" and hf :: "Repos Handler"
  assumes "Webhook.PullRequest wh = Some pr" and "hasLabel approvedLabel (LabelChanged pr)"
  shows "(\<forall>s calls s1 calls1 user repo.
            authorize ic (Sender wh) (PullRequest.Author pr) (traced cli) (s, calls)
              = (Return (Some (UnauthorizedError user repo)), (s1, calls1)) \<longrightarrow>
            (calls1 = calls \<or> calls1 = calls @ [GitCanUserWriteToRepo (Sender wh)])
            \<and> (snd (snd (handleLabelEvent h wh ic (traced cli) (s, calls)))
                  = calls1 @ [revertCall pr]
               \<or> snd (snd (handleLabelEvent h wh ic (traced cli) (s, calls)))
                  = calls1 @ [revertCall pr, rejectionCall pr user])
            \<and> (\<forall>s2. revertOn cli pr s1 = (Return None, s2) \<longrightarrow>
                  snd (snd (handleLabelEvent h wh ic (traced cli) (s, calls)))
                    = calls1 @ [revertCall pr, rejectionCall pr user]
                  \<and> fst (handleLabelEvent h wh ic (traced cli) (s, calls))
                    = fst (RegisterComment cli IssueTypePullRequest (PullRequest.ID pr)
                             (generateUserUnauthorizedComment user) s2)))
       \<and> (\<forall>now repos labels user repo.
            fst (authorize ic (Sender wh) (PullRequest.Author pr) (fakeClient now ic) repos)
              = Return (Some (UnauthorizedError user repo))
            \<and> labelsOf repos (Repository ic) (PullRequest.ID pr) = Some labels \<longrightarrow>
            labelsOf (snd (handleLabelEvent hf wh ic (fakeClient now ic) repos))
                (Repository ic) (PullRequest.ID pr)
              = Some (if hasLabel approvedLabel (Labels pr) then cutLabel approvedLabel labels
                      else labels @ [\<lparr>IssueLabel.Name = approvedLabel\<rparr>])
            \<and> (labels = Labels pr \<and> distinct labels \<longrightarrow>
                 hasLabel approvedLabel
                   (if hasLabel approvedLabel (Labels pr) then cutLabel approvedLabel labels
                    else labels @ [\<lparr>IssueLabel.Name = approvedLabel\<rparr>])
                 = (\<not> hasLabel approvedLabel (Labels pr))))"
proof -
  have traced_part: "\<forall>s calls s1 calls1 user repo.
            authorize ic (Sender wh) (PullRequest.Author pr) (traced cli) (s, calls)
              = (Return (Some (UnauthorizedError user repo)), (s1, calls1)) \<longrightarrow>
            (calls1 = calls \<or> calls1 = calls @ [GitCanUserWriteToRepo (Sender wh)])
            \<and> (snd (snd (handleLabelEvent h wh ic (traced cli) (s, calls)))
                  = calls1 @ [revertCall pr]
               \<or> snd (snd (handleLabelEvent h wh ic (traced cli) (s, calls)))
                  = calls1 @ [revertCall pr, rejectionCall pr user])
            \<and> (\<forall>s2. revertOn cli pr s1 = (Return None, s2) \<longrightarrow>
                  snd (snd (handleLabelEvent h wh ic (traced cli) (s, calls)))
                    = calls1 @ [revertCall pr, rejectionCall pr user]
                  \<and> fst (handleLabelEvent h wh ic (traced cli) (s, calls))
                    = fst (RegisterComment cli IssueTypePullRequest (PullRequest.ID pr)
                             (generateUserUnauthorizedComment user) s2))"
  proof (intro allI impI)
    fix s calls s1 calls1 user repo
    assume auth: "authorize ic (Sender wh) (PullRequest.Author pr) (traced cli) (s, calls)
              = (Return (Some (UnauthorizedError user repo)), (s1, calls1))"
    note facts = revert_then_comment_traced(1) [OF assms auth]
      revert_then_comment_traced(2) [OF assms auth, where h = h]
      revert_then_comment_traced(3) [OF assms auth, where h = h]
    show "(calls1 = calls \<or> calls1 = calls @ [GitCanUserWriteToRepo (Sender wh)])
            \<and> (snd (snd (handleLabelEvent h wh ic (traced cli) (s, calls)))
                  = calls1 @ [revertCall pr]
               \<or> snd (snd (handleLabelEvent h wh ic (traced cli) (s, calls)))
                  = calls1 @ [revertCall pr, rejectionCall pr user])
            \<and> (\<forall>s2. revertOn cli pr s1 = (Return None, s2) \<longrightarrow>
                  snd (snd (handleLabelEvent h wh ic (traced cli) (s, calls)))
                    = calls1 @ [revertCall pr, rejectionCall pr user]
                  \<and> fst (handleLabelEvent h wh ic (traced cli) (s, calls))
                    = fst (RegisterComment cli IssueTypePullRequest (PullRequest.ID pr)
                             (generateUserUnauthorizedComment user) s2))"
      unfolding revertCall_def revertOn_def rejectionCall_def
      using facts by (cases "hasLabel approvedLabel (Labels pr)") simp_all
  qed
  have fake_part: "\<forall>now repos labels user repo.
            fst (authorize ic (Sender wh) (PullRequest.Author pr) (fakeClient now ic) repos)
              = Return (Some (UnauthorizedError user repo))
            \<and> labelsOf repos (Repository ic) (PullRequest.ID pr) = Some labels \<longrightarrow>
            labelsOf (snd (handleLabelEvent hf wh ic (fakeClient now ic) repos))
                (Repository ic) (PullRequest.ID pr)
              = Some (if hasLabel approvedLabel (Labels pr) then cutLabel approvedLabel labels
                      else labels @ [\<lparr>IssueLabel.Name = approvedLabel\<rparr>])
            \<and> (labels = Labels pr \<and> distinct labels \<longrightarrow>
                 hasLabel approvedLabel
                   (if hasLabel approvedLabel (Labels pr) then cutLabel approvedLabel labels
                    else labels @ [\<lparr>IssueLabel.Name = approvedLabel\<rparr>])
                 = (\<not> hasLabel approvedLabel (Labels pr)))"
    using revert_on_fake [OF assms, where h = hf and ic = ic] cutLabel_distinct
    by (auto simp: hasLabel_set)
  from traced_part fake_part show ?thesis by (rule conjI)
qed

theorem unauthorized_label_change_is_reverted_witness:
  "snd (snd (handleLabelEvent (exampleHandler (\<lambda>cfg. traced (fakeClient 0 cfg)))
               (labelEvent carol [labelNamed ''approved'']) exampleConfig
               (traced (fakeClient 0 exampleConfig))
               (exampleRepos [labelNamed ''approved''], [])))
     = [GitCanUserWriteToRepo carol, revertCall (examplePullRequest [labelNamed ''approved'']),
        rejectionCall (examplePullRequest [labelNamed ''approved'']) ''carol'']
   \<and> labelsOf (snd (handleLabelEvent (exampleHandler (fakeClient 0))
                      (labelEvent carol [labelNamed ''approved'']) exampleConfig
                      (fakeClient 0 exampleConfig) (exampleRepos [labelNamed ''approved''])))
        ''tmax/cicd'' 42
     = Some []"
proof -
  let ?pr = "examplePullRequest [labelNamed ''approved'']"
  let ?wh = "labelEvent carol [labelNamed ''approved'']"
  let ?repos = "exampleRepos [labelNamed ''approved'']"
  have pr: "Webhook.PullRequest ?wh = Some ?pr" by (simp add: labelEvent_def)
  have changed: "hasLabel approvedLabel (LabelChanged ?pr)"
    by (simp add: examplePullRequest_def labelNamed_def approvedLabel_def)
  have auth: "authorize exampleConfig (Sender ?wh) (PullRequest.Author ?pr)
      (traced (fakeClient 0 exampleConfig)) (?repos, [])
      = (Return (Some (UnauthorizedError ''carol'' ''tmax/cicd'')),
         (?repos, [GitCanUserWriteToRepo carol]))"
    by (simp add: authorize_def traced_def journal_def act_defs fake_defs git_fixture_defs)
  have rev: "revertOn (fakeClient 0 exampleConfig) ?pr ?repos = (Return None, exampleRepos [])"
    by (simp add: revertOn_def approvedLabel_def fake_defs git_fixture_defs)
  have auth': "fst (authorize exampleConfig (Sender ?wh) (PullRequest.Author ?pr)
      (fakeClient 0 exampleConfig) ?repos) = Return (Some (UnauthorizedError ''carol'' ''tmax/cicd''))"
    by (simp add: authorize_def act_defs fake_defs git_fixture_defs)
  have labels: "labelsOf ?repos (Repository exampleConfig) (PullRequest.ID ?pr)
      = Some [labelNamed ''approved'']"
    by (simp add: fake_defs git_fixture_defs)
  have cut: "hasLabel approvedLabel (Labels ?pr)"
    "cutLabel approvedLabel [labelNamed ''approved''] = []"
    by (simp_all add: cutLabel_def approvedLabel_def git_fixture_defs)
  have ids: "Repository exampleConfig = ''tmax/cicd''" "PullRequest.ID ?pr = 42"
    by (simp_all add: git_fixture_defs)
  note inst = unauthorized_label_change_is_reverted [OF pr changed,
      where ic = exampleConfig and cli = "fakeClient 0 exampleConfig"
        and h = "exampleHandler (\<lambda>cfg. traced (fakeClient 0 cfg))"
        and hf = "exampleHandler (fakeClient 0)"]
  from inst auth rev have
    "snd (snd (handleLabelEvent (exampleHandler (\<lambda>cfg. traced (fakeClient 0 cfg))) ?wh exampleConfig
               (traced (fakeClient 0 exampleConfig)) (?repos, [])))
     = [GitCanUserWriteToRepo carol] @ [revertCall ?pr, rejectionCall ?pr ''carol'']"
    by blast
  moreover from inst auth' labels have
    "labelsOf (snd (handleLabelEvent (exampleHandler (fakeClient 0)) ?wh exampleConfig
                      (fakeClient 0 exampleConfig) ?repos))
        (Repository exampleConfig) (PullRequest.ID ?pr)
     = Some (if hasLabel approvedLabel (Labels ?pr)
             then cutLabel approvedLabel [labelNamed ''approved'']
             else [labelNamed ''approved''] @ [\<lparr>IssueLabel.Name = approvedLabel\<rparr>])"
    by blast
  ultimately show ?thesis using cut ids by simp
qed

end
